theory Spec2Isabelle
  imports Main
begin

section \<open>The platform: what the services call and do not define\<close>

text \<open>
  The token service (\<^verbatim>\<open>src/services/auth/tokenService.ts\<close>) calls the
  \<^verbatim>\<open>jsonwebtoken\<close> package, Node's \<^verbatim>\<open>crypto\<close> and reads
  \<^verbatim>\<open>process.env\<close>; the database layer casts user ids to ObjectIds
  (\<open>isObjectId\<close>: the strings that cast). None of them is part of the repository, so they
  are parameters of every definition below, collected in the record \<open>platform\<close>. The clock
  (\<^verbatim>\<open>Date.now()\<close>, milliseconds) is an explicit argument \<open>now\<close>; the readings taken
  during one call are one instant.

  Strings are lists of code units; the claims of a token that the code reads
  (\<^verbatim>\<open>userId\<close>, \<^verbatim>\<open>type\<close>) are string valued, an absent claim is \<open>None\<close>.
\<close>

type_synonym claims = "string \<rightharpoonup> string"

text \<open>
  What \<^verbatim>\<open>jwt.sign\<close> and \<^verbatim>\<open>jwt.verify\<close> throw. In \<^verbatim>\<open>jsonwebtoken\<close> the classes
  \<^verbatim>\<open>TokenExpiredError\<close> and \<^verbatim>\<open>NotBeforeError\<close> extend \<^verbatim>\<open>JsonWebTokenError\<close>.
\<close>

datatype thrown = JsonWebTokenError | TokenExpiredError | NotBeforeError | OtherThrown

definition instanceof_JsonWebTokenError :: "thrown \<Rightarrow> bool" where
  "instanceof_JsonWebTokenError e = (e \<noteq> OtherThrown)"

definition instanceof_TokenExpiredError :: "thrown \<Rightarrow> bool" where
  "instanceof_TokenExpiredError e = (e = TokenExpiredError)"

record SignOptions =
  expiresIn :: string
  algorithm :: string
  issuer :: string
  audience :: string

record platform =
  jwt_sign :: "claims \<Rightarrow> string \<Rightarrow> SignOptions \<Rightarrow> int \<Rightarrow> thrown + string"
  jwt_verify :: "string \<Rightarrow> string \<Rightarrow> int \<Rightarrow> thrown + claims"
  jwt_decode :: "string \<Rightarrow> claims option"
  sha256_hex :: "string \<Rightarrow> string"
  isObjectId :: "string \<Rightarrow> bool"
  env :: "string \<Rightarrow> string option"

text \<open>\<^verbatim>\<open>a || b\<close> for an optional string \<open>a\<close>: undefined and the empty string are falsy.\<close>

definition js_or :: "string option \<Rightarrow> string \<Rightarrow> string" where
  "js_or a b = (case a of None \<Rightarrow> b | Some s \<Rightarrow> if s = [] then b else s)"

section \<open>TokenService: issuing and verifying tokens\<close>

definition ACCESS_TOKEN_EXPIRY :: string where
  "ACCESS_TOKEN_EXPIRY = ''15m''"

definition REFRESH_TOKEN_EXPIRY :: string where
  "REFRESH_TOKEN_EXPIRY = ''7d''"

definition ALGORITHM :: string where
  "ALGORITHM = ''HS256''"

record TokenValidationResult =
  userId :: string
  isValid :: bool
  error :: "string option"

text \<open>\<^verbatim>\<open>TokenError(message, code)\<close>.\<close>

datatype TokenError = TokenError string string

definition getSecret :: "platform \<Rightarrow> string \<Rightarrow> string" where
  "getSecret pf ty =
     (let secretKey = (if ty = ''access'' then ''JWT_SECRET'' else ''JWT_REFRESH_SECRET'');
          fallbackSecret = (if ty = ''access'' then ''fallback-secret'' else ''fallback-refresh-secret'')
      in js_or (env pf secretKey) fallbackSecret)"

definition signOptions :: "platform \<Rightarrow> string \<Rightarrow> SignOptions" where
  "signOptions pf expiry =
     \<lparr>expiresIn = expiry, algorithm = ALGORITHM,
      issuer = js_or (env pf ''JWT_ISSUER'') ''gurujiyog-api'',
      audience = js_or (env pf ''JWT_AUDIENCE'') ''gurujiyog-client''\<rparr>"

text \<open>
  The payload \<^verbatim>\<open>{userId, type: "access", ...additionalClaims}\<close>: the spread comes last, so an
  additional claim of the same name replaces \<^verbatim>\<open>userId\<close> or \<^verbatim>\<open>type\<close>.
\<close>

definition accessPayload :: "string \<Rightarrow> claims option \<Rightarrow> claims" where
  "accessPayload uid additionalClaims =
     [''userId'' \<mapsto> uid, ''type'' \<mapsto> ''access'']
       ++ (case additionalClaims of None \<Rightarrow> Map.empty | Some a \<Rightarrow> a)"

definition refreshPayload :: "string \<Rightarrow> claims" where
  "refreshPayload uid = [''userId'' \<mapsto> uid, ''type'' \<mapsto> ''refresh'']"

definition generateAccessToken ::
  "platform \<Rightarrow> int \<Rightarrow> string \<Rightarrow> claims option \<Rightarrow> TokenError + string" where
  "generateAccessToken pf now uid additionalClaims =
     (if uid = [] then Inl (TokenError ''Failed to generate access token'' ''TOKEN_GENERATION_FAILED'')
      else
        case jwt_sign pf (accessPayload uid additionalClaims) (getSecret pf ''access'')
               (signOptions pf ACCESS_TOKEN_EXPIRY) now of
          Inr token \<Rightarrow> Inr token
        | Inl e \<Rightarrow> Inl (TokenError ''Failed to generate access token'' ''TOKEN_GENERATION_FAILED''))"

definition generateRefreshToken :: "platform \<Rightarrow> int \<Rightarrow> string \<Rightarrow> TokenError + string" where
  "generateRefreshToken pf now uid =
     (if uid = [] then Inl (TokenError ''Failed to generate refresh token'' ''TOKEN_GENERATION_FAILED'')
      else
        case jwt_sign pf (refreshPayload uid) (getSecret pf ''refresh'')
               (signOptions pf REFRESH_TOKEN_EXPIRY) now of
          Inr token \<Rightarrow> Inr token
        | Inl e \<Rightarrow> Inl (TokenError ''Failed to generate refresh token'' ''TOKEN_GENERATION_FAILED''))"

text \<open>
  \<^verbatim>\<open>\s\<close> of a JavaScript regular expression, on code units below 256: tab, line feed,
  vertical tab, form feed, carriage return, space and no-break space.
\<close>

definition js_whitespace :: "char \<Rightarrow> bool" where
  "js_whitespace c = (c \<in> set [CHR 0x09, CHR 0x0A, CHR 0x0B, CHR 0x0C, CHR 0x0D, CHR 0x20, CHR 0xA0])"

text \<open>The six letters of \<^verbatim>\<open>/^Bearer/i\<close>, in either case.\<close>

fun matchesBearer :: "string \<Rightarrow> bool" where
  "matchesBearer (c1 # c2 # c3 # c4 # c5 # c6 # rest) =
     ((c1 = CHR ''B'' \<or> c1 = CHR ''b'') \<and> (c2 = CHR ''E'' \<or> c2 = CHR ''e'') \<and>
      (c3 = CHR ''A'' \<or> c3 = CHR ''a'') \<and> (c4 = CHR ''R'' \<or> c4 = CHR ''r'') \<and>
      (c5 = CHR ''E'' \<or> c5 = CHR ''e'') \<and> (c6 = CHR ''R'' \<or> c6 = CHR ''r''))"
| "matchesBearer _ = False"

text \<open>
  \<^verbatim>\<open>token.replace(/^Bearer\s+/i, "")\<close>: when the token starts with the word and at least one
  white space, the word and all the white space after it are removed.
\<close>

definition replaceBearer :: "string \<Rightarrow> string" where
  "replaceBearer token =
     (if matchesBearer token \<and> (case drop 6 token of [] \<Rightarrow> False | c # _ \<Rightarrow> js_whitespace c)
      then dropWhile js_whitespace (drop 6 token)
      else token)"

text \<open>
  In both verifiers the \<^verbatim>\<open>catch\<close> block tests \<^verbatim>\<open>JsonWebTokenError\<close> first, then
  \<^verbatim>\<open>TokenExpiredError\<close>.
\<close>

definition verifyAccessToken :: "platform \<Rightarrow> int \<Rightarrow> string \<Rightarrow> TokenValidationResult option" where
  "verifyAccessToken pf now token =
     (if token = [] then None
      else
        let cleanToken = replaceBearer token;
            secret = getSecret pf ''access''
        in case jwt_verify pf cleanToken secret now of
             Inr decoded \<Rightarrow>
               if decoded ''type'' \<noteq> Some ''access'' then None
               else (case decoded ''userId'' of
                       None \<Rightarrow> None
                     | Some uid \<Rightarrow>
                         if uid = [] then None
                         else Some \<lparr>userId = uid, isValid = True, error = None\<rparr>)
           | Inl e \<Rightarrow>
               if instanceof_JsonWebTokenError e
               then Some \<lparr>userId = [], isValid = False, error = Some ''Invalid token signature''\<rparr>
               else if instanceof_TokenExpiredError e
               then Some \<lparr>userId = [], isValid = False, error = Some ''Token expired''\<rparr>
               else None)"

definition verifyRefreshToken :: "platform \<Rightarrow> int \<Rightarrow> string \<Rightarrow> TokenValidationResult option" where
  "verifyRefreshToken pf now token =
     (if token = [] then None
      else
        let secret = getSecret pf ''refresh''
        in case jwt_verify pf token secret now of
             Inr decoded \<Rightarrow>
               if decoded ''type'' \<noteq> Some ''refresh'' then None
               else (case decoded ''userId'' of
                       None \<Rightarrow> None
                     | Some uid \<Rightarrow>
                         if uid = [] then None
                         else Some \<lparr>userId = uid, isValid = True, error = None\<rparr>)
           | Inl e \<Rightarrow>
               if instanceof_JsonWebTokenError e
               then Some \<lparr>userId = [], isValid = False, error = Some ''Invalid token signature''\<rparr>
               else if instanceof_TokenExpiredError e
               then Some \<lparr>userId = [], isValid = False, error = Some ''Token expired''\<rparr>
               else None)"

text \<open>A verifier accepts a token when it returns a result with \<^verbatim>\<open>isValid\<close> true.\<close>

definition accepted :: "TokenValidationResult option \<Rightarrow> bool" where
  "accepted r = (case r of None \<Rightarrow> False | Some v \<Rightarrow> isValid v)"

text \<open>The type claim embedded in a token, as \<^verbatim>\<open>jwt.decode\<close> reads it without any check.\<close>

definition typeClaim :: "platform \<Rightarrow> string \<Rightarrow> string option" where
  "typeClaim pf token = (case jwt_decode pf token of None \<Rightarrow> None | Some d \<Rightarrow> d ''type'')"

text \<open>
  The lifetime in seconds that \<^verbatim>\<open>jsonwebtoken\<close> reads from the two \<^verbatim>\<open>expiresIn\<close> settings of
  the service.
\<close>

definition expirySeconds :: "string \<Rightarrow> int" where
  "expirySeconds e = (if e = ''15m'' then 15 * 60 else if e = ''7d'' then 7 * 24 * 60 * 60 else 0)"

text \<open>
  What the properties below use of \<^verbatim>\<open>jsonwebtoken\<close>:
  \<^item> \<^verbatim>\<open>verify\<close> returns the payload that \<^verbatim>\<open>decode\<close> reads;
  \<^item> a string that decodes is not empty and has no white space (a compact serialisation
    is base64url text and dots);
  \<^item> a token signed with one of the two expiry settings of the service verifies under the
    same secret, with the \<^verbatim>\<open>userId\<close> and \<^verbatim>\<open>type\<close> it was signed with, from the instant
    of signing until the clock, in whole seconds, reaches the second of signing plus the
    lifetime.
\<close>

definition jsonwebtoken_contract :: "platform \<Rightarrow> bool" where
  "jsonwebtoken_contract pf =
     ((\<forall>token secret now d. jwt_verify pf token secret now = Inr d \<longrightarrow> jwt_decode pf token = Some d) \<and>
      (\<forall>token d. jwt_decode pf token = Some d \<longrightarrow> token \<noteq> [] \<and> (\<forall>c \<in> set token. \<not> js_whitespace c)) \<and>
      (\<forall>payload secret opts now later token.
         expiresIn opts \<in> {ACCESS_TOKEN_EXPIRY, REFRESH_TOKEN_EXPIRY} \<longrightarrow>
         jwt_sign pf payload secret opts now = Inr token \<longrightarrow>
         now \<le> later \<longrightarrow> later div 1000 < now div 1000 + expirySeconds (expiresIn opts) \<longrightarrow>
         (\<exists>d. jwt_verify pf token secret later = Inr d \<and>
              d ''userId'' = payload ''userId'' \<and> d ''type'' = payload ''type'')))"

section \<open>TokenService: the session store\<close>

text \<open>
  A document of the \<^verbatim>\<open>Session\<close> collection (\<^verbatim>\<open>src/models/Session.ts\<close>): the paths the
  schema declares, the two that its option \<^verbatim>\<open>timestamps: true\<close> adds (\<^verbatim>\<open>createdAt\<close>,
  \<^verbatim>\<open>updatedAt\<close>), and \<^verbatim>\<open>revokedAt\<close>, which the two revoking updates name and the cleanup
  queries but the schema does not declare; it is \<open>None\<close> in a document that does not hold
  it. The \<^verbatim>\<open>_id\<close> is left out. Dates are milliseconds.

  The collection is the list of its documents in insertion order; \<^verbatim>\<open>findOne\<close> and
  \<^verbatim>\<open>updateOne\<close> take the first document the filter matches, \<^verbatim>\<open>updateMany\<close> all of them.
  The store is available. The removal of expired documents in the background (the TTL
  index) is not modelled; no filter of \<^verbatim>\<open>validateSession\<close> matches such a document either
  way.

  \<^verbatim>\<open>SessionData\<close> is the metadata argument of \<^verbatim>\<open>createSession\<close>.
\<close>

record SessionData =
  sd_userId :: string
  sd_deviceInfo :: string
  sd_ipAddress :: string
  sd_userAgent :: "string option"

record Session =
  s_userId :: string
  refreshTokenHash :: string
  deviceInfo :: string
  ipAddress :: string
  userAgent :: "string option"
  expiresAt :: int
  isActive :: bool
  createdAt :: int
  lastUsed :: int
  updatedAt :: int
  revokedAt :: "int option"

type_synonym sessions = "Session list"

text \<open>The string fields of a session document.\<close>

definition sessionStrings :: "Session \<Rightarrow> string list" where
  "sessionStrings s =
     [s_userId s, refreshTokenHash s, deviceInfo s, ipAddress s]
       @ (case userAgent s of None \<Rightarrow> [] | Some a \<Rightarrow> [a])"

text \<open>
  What the Mongoose schema does to the calls of the service. The schema is strict (it sets no
  \<^verbatim>\<open>strict\<close> option, and strict is the default).
  \<^item> \<^verbatim>\<open>Session.create\<close> validates the document: \<^verbatim>\<open>userId\<close> must cast to an ObjectId, and
    the required strings \<^verbatim>\<open>refreshTokenHash\<close> and \<^verbatim>\<open>ipAddress\<close> must not be empty;
    otherwise it rejects. With \<^verbatim>\<open>timestamps\<close>, a new document gets its \<^verbatim>\<open>updatedAt\<close> from the
    \<^verbatim>\<open>createdAt\<close> passed.
  \<^item> An update document is a list of paths and values. Its paths that the schema does not
    declare are dropped; the others are set, and \<^verbatim>\<open>timestamps\<close> sets \<^verbatim>\<open>updatedAt\<close> to the
    time of the update.
  \<^item> A filter on \<^verbatim>\<open>userId\<close> is cast to an ObjectId too; the query throws when the cast fails.
\<close>

definition schemaAccepts :: "platform \<Rightarrow> Session \<Rightarrow> bool" where
  "schemaAccepts pf doc =
     (isObjectId pf (s_userId doc) \<and> refreshTokenHash doc \<noteq> [] \<and> ipAddress doc \<noteq> [])"

datatype FieldValue = BoolValue bool | DateValue int

type_synonym updateDocument = "(string \<times> FieldValue) list"

definition schemaPaths :: "string list" where
  "schemaPaths =
     [''userId'', ''refreshTokenHash'', ''deviceInfo'', ''ipAddress'', ''userAgent'',
      ''expiresAt'', ''lastUsed'', ''isActive'', ''createdAt'', ''updatedAt'']"

definition castUpdate :: "updateDocument \<Rightarrow> updateDocument" where
  "castUpdate upd = filter (\<lambda>(path, v). path \<in> set schemaPaths) upd"

fun setField :: "string \<times> FieldValue \<Rightarrow> Session \<Rightarrow> Session" where
  "setField (path, BoolValue b) s = (if path = ''isActive'' then s\<lparr>isActive := b\<rparr> else s)"
| "setField (path, DateValue d) s =
     (if path = ''expiresAt'' then s\<lparr>expiresAt := d\<rparr>
      else if path = ''lastUsed'' then s\<lparr>lastUsed := d\<rparr>
      else if path = ''createdAt'' then s\<lparr>createdAt := d\<rparr>
      else if path = ''updatedAt'' then s\<lparr>updatedAt := d\<rparr>
      else if path = ''revokedAt'' then s\<lparr>revokedAt := Some d\<rparr>
      else s)"

definition applyUpdate :: "int \<Rightarrow> updateDocument \<Rightarrow> Session \<Rightarrow> Session" where
  "applyUpdate now upd s = (fold setField (castUpdate upd) s)\<lparr>updatedAt := now\<rparr>"

fun updateFirst :: "('a \<Rightarrow> bool) \<Rightarrow> ('a \<Rightarrow> 'a) \<Rightarrow> 'a list \<Rightarrow> 'a list" where
  "updateFirst q f [] = []"
| "updateFirst q f (x # xs) = (if q x then f x # xs else x # updateFirst q f xs)"

definition updateMany :: "('a \<Rightarrow> bool) \<Rightarrow> ('a \<Rightarrow> 'a) \<Rightarrow> 'a list \<Rightarrow> 'a list" where
  "updateMany q f xs = map (\<lambda>x. if q x then f x else x) xs"

text \<open>\<^verbatim>\<open>modifiedCount\<close>: the matched documents that the update changed.\<close>

definition modifiedCount :: "('a \<Rightarrow> bool) \<Rightarrow> ('a \<Rightarrow> 'a) \<Rightarrow> 'a list \<Rightarrow> nat" where
  "modifiedCount q f xs = length (filter (\<lambda>x. q x \<and> f x \<noteq> x) xs)"

definition hashRefreshToken :: "platform \<Rightarrow> string \<Rightarrow> TokenError + string" where
  "hashRefreshToken pf token =
     (if token = [] then Inl (TokenError ''Failed to hash refresh token'' ''HASH_GENERATION_FAILED'')
      else Inr (sha256_hex pf token))"

definition createSession ::
  "platform \<Rightarrow> int \<Rightarrow> sessions \<Rightarrow> string \<Rightarrow> string \<Rightarrow> SessionData \<Rightarrow> (TokenError + unit) \<times> sessions" where
  "createSession pf now store uid refreshToken sessionData =
     (if uid = [] \<or> refreshToken = []
      then (Inl (TokenError ''Failed to create session'' ''SESSION_CREATION_FAILED''), store)
      else
        case hashRefreshToken pf refreshToken of
          Inl e \<Rightarrow> (Inl (TokenError ''Failed to create session'' ''SESSION_CREATION_FAILED''), store)
        | Inr hash \<Rightarrow>
            let doc =
                  \<lparr>s_userId = uid, refreshTokenHash = hash,
                   deviceInfo = sd_deviceInfo sessionData, ipAddress = sd_ipAddress sessionData,
                   userAgent = sd_userAgent sessionData,
                   expiresAt = now + 7 * 24 * 60 * 60 * 1000, isActive = True,
                   createdAt = now, lastUsed = now, updatedAt = now, revokedAt = None\<rparr>
            in if schemaAccepts pf doc then (Inr (), store @ [doc])
               else (Inl (TokenError ''Failed to create session'' ''SESSION_CREATION_FAILED''), store))"

text \<open>The filter of \<^verbatim>\<open>validateSession\<close>: hash, \<^verbatim>\<open>isActive: true\<close>, \<^verbatim>\<open>expiresAt: {$gt: now}\<close>.\<close>

definition liveSession :: "string \<Rightarrow> int \<Rightarrow> Session \<Rightarrow> bool" where
  "liveSession hash now s = (refreshTokenHash s = hash \<and> isActive s \<and> now < expiresAt s)"

text \<open>
  The result \<^verbatim>\<open>{userId}\<close> is its one field; \<^verbatim>\<open>null\<close> is \<open>None\<close>. \<^verbatim>\<open>session.save()\<close> writes
  the new \<^verbatim>\<open>lastUsed\<close>, and with it \<^verbatim>\<open>updatedAt\<close>.
\<close>

definition validateSession ::
  "platform \<Rightarrow> int \<Rightarrow> sessions \<Rightarrow> string \<Rightarrow> string option \<times> sessions" where
  "validateSession pf now store refreshToken =
     (if refreshToken = [] then (None, store)
      else
        case verifyRefreshToken pf now refreshToken of
          None \<Rightarrow> (None, store)
        | Some tokenVerification \<Rightarrow>
            if \<not> isValid tokenVerification then (None, store)
            else
              (case hashRefreshToken pf refreshToken of
                 Inl e \<Rightarrow> (None, store)
               | Inr hash \<Rightarrow>
                   (case find (liveSession hash now) store of
                      None \<Rightarrow> (None, store)
                    | Some session \<Rightarrow>
                        (Some (s_userId session),
                         updateFirst (liveSession hash now)
                           (\<lambda>s. s\<lparr>lastUsed := now, updatedAt := now\<rparr>) store))))"

text \<open>The update document of both revoking calls: \<^verbatim>\<open>{isActive: false, revokedAt: new Date()}\<close>.\<close>

definition revokingUpdate :: "int \<Rightarrow> updateDocument" where
  "revokingUpdate now = [(''isActive'', BoolValue False), (''revokedAt'', DateValue now)]"

definition revokeSession ::
  "platform \<Rightarrow> int \<Rightarrow> sessions \<Rightarrow> string \<Rightarrow> (TokenError + unit) \<times> sessions" where
  "revokeSession pf now store refreshToken =
     (if refreshToken = []
      then (Inl (TokenError ''Failed to revoke session'' ''SESSION_REVOCATION_FAILED''), store)
      else
        case hashRefreshToken pf refreshToken of
          Inl e \<Rightarrow> (Inl (TokenError ''Failed to revoke session'' ''SESSION_REVOCATION_FAILED''), store)
        | Inr hash \<Rightarrow>
            (Inr (),
             updateFirst (\<lambda>s. refreshTokenHash s = hash)
               (applyUpdate now (revokingUpdate now)) store))"

definition revokeAllUserSessions ::
  "platform \<Rightarrow> int \<Rightarrow> sessions \<Rightarrow> string \<Rightarrow> (TokenError + nat) \<times> sessions" where
  "revokeAllUserSessions pf now store uid =
     (if uid = [] \<or> \<not> isObjectId pf uid
      then (Inl (TokenError ''Failed to revoke user sessions'' ''BULK_REVOCATION_FAILED''), store)
      else
        let q = (\<lambda>s. s_userId s = uid \<and> isActive s);
            f = applyUpdate now (revokingUpdate now)
        in (Inr (modifiedCount q f store), updateMany q f store))"

text \<open>The pair \<^verbatim>\<open>{accessToken, refreshToken}\<close> of \<^verbatim>\<open>generateTokenPair\<close>.\<close>

definition generateTokenPair ::
  "platform \<Rightarrow> int \<Rightarrow> sessions \<Rightarrow> string \<Rightarrow> SessionData \<Rightarrow> (TokenError + string \<times> string) \<times> sessions" where
  "generateTokenPair pf now store uid sessionData =
     (let failed = TokenError ''Failed to generate token pair'' ''TOKEN_PAIR_GENERATION_FAILED'' in
      case generateAccessToken pf now uid None of
        Inl e \<Rightarrow> (Inl failed, store)
      | Inr accessToken \<Rightarrow>
          (case generateRefreshToken pf now uid of
             Inl e \<Rightarrow> (Inl failed, store)
           | Inr refreshToken \<Rightarrow>
               (case createSession pf now store uid refreshToken sessionData of
                  (Inl e, store') \<Rightarrow> (Inl failed, store')
                | (Inr u, store') \<Rightarrow> (Inr (accessToken, refreshToken), store'))))"

section \<open>MemoryCache\<close>

text \<open>
  The in-memory cache (class \<^verbatim>\<open>MemoryCache\<close>, the default of \<^verbatim>\<open>createCache\<close>): a map from
  keys to entries \<^verbatim>\<open>{data, expiresAt}\<close>. The controller works with any object that has the
  \<^verbatim>\<open>get\<close>, \<^verbatim>\<open>setex\<close> and \<^verbatim>\<open>del\<close> of its \<^verbatim>\<open>CacheInterface\<close>; the model gives it this
  one. The controller stores \<^verbatim>\<open>JSON.stringify\<close> of a session object and reads it back with
  \<^verbatim>\<open>JSON.parse\<close>; the entry's data is modelled by the object that the text encodes,
  dates being instants in milliseconds on both sides. \<^verbatim>\<open>get\<close> deletes an expired entry,
  so it returns the storage too. The timer that removes expired entries every minute is
  not modelled: \<^verbatim>\<open>get\<close> treats such an entry as absent either way.
\<close>

record 'v CacheEntry =
  data :: 'v
  entryExpiresAt :: int

type_synonym 'v cacheStorage = "string \<rightharpoonup> 'v CacheEntry"

definition isExpired :: "int \<Rightarrow> 'v CacheEntry \<Rightarrow> bool" where
  "isExpired now entry = (now > entryExpiresAt entry)"

definition cache_get :: "int \<Rightarrow> 'v cacheStorage \<Rightarrow> string \<Rightarrow> 'v option \<times> 'v cacheStorage" where
  "cache_get now cacheStorage key =
     (case cacheStorage key of
        None \<Rightarrow> (None, cacheStorage)
      | Some entry \<Rightarrow>
          if isExpired now entry then (None, cacheStorage(key := None))
          else (Some (data entry), cacheStorage))"

definition cache_setex :: "int \<Rightarrow> 'v cacheStorage \<Rightarrow> string \<Rightarrow> int \<Rightarrow> 'v \<Rightarrow> 'v cacheStorage" where
  "cache_setex now cacheStorage key ttlSeconds v =
     (let expiresAt = now + ttlSeconds * 1000
      in cacheStorage(key \<mapsto> \<lparr>data = v, entryExpiresAt = expiresAt\<rparr>))"

definition cache_del :: "'v cacheStorage \<Rightarrow> string \<Rightarrow> 'v cacheStorage" where
  "cache_del cacheStorage key = cacheStorage(key := None)"

section \<open>HybridAuthController\<close>

text \<open>
  The session controller (\<^verbatim>\<open>src/controllers/hybridAuthController.ts\<close>). The user
  documents it reads with \<^verbatim>\<open>User.findById\<close> have the fields that \<^verbatim>\<open>buildSessionData\<close>
  copies; the collection is a map from ids to documents.
\<close>

record Preferences =
  theme :: string
  language :: string
  notifications :: bool

record User =
  user_id :: string
  user_email :: string
  user_name :: string
  user_avatar :: "string option"
  user_role :: string
  user_isActive :: bool
  user_isVerified :: bool
  user_preferences :: "Preferences option"
  user_lastLogin :: "int option"

type_synonym users = "string \<rightharpoonup> User"

record Permissions =
  canBookClasses :: bool
  canTeach :: bool
  canManageShaalas :: bool
  canViewAnalytics :: bool
  maxBookingsPerDay :: nat

record SessionMetadata =
  tokenExpiresAt :: int
  refreshAt :: int
  cacheExpiresAt :: int

text \<open>
  The object \<^verbatim>\<open>buildSessionData\<close> returns (\<^verbatim>\<open>authenticated: true\<close>); its
  \<^verbatim>\<open>user\<close> has the fields of the document, \<^verbatim>\<open>preferences\<close> filled in.
\<close>

record SessionSnapshot =
  user :: User
  recentBookings :: "string list"
  permissions :: Permissions
  sessionMetadata :: SessionMetadata

text \<open>What \<^verbatim>\<open>getSessionData\<close> returns: a session object or \<^verbatim>\<open>{authenticated: false, error}\<close>.\<close>

datatype SessionResult = Authenticated SessionSnapshot | Unauthenticated string

record HybridAuthController =
  cache :: "SessionSnapshot cacheStorage"
  CACHE_KEY_PREFIX :: string
  CACHE_TTL_SECONDS :: int
  REFRESH_BEFORE_EXPIRY_SECONDS :: int

text \<open>
  The constructor takes the cache instance and nothing else; the other three fields are
  the class's field initialisers. A constructor call either returns the object or throws;
  this one has no \<^verbatim>\<open>throw\<close>.
\<close>

datatype 'a constructed = Threw string | Returned 'a

definition new_HybridAuthController ::
  "SessionSnapshot cacheStorage \<Rightarrow> HybridAuthController constructed" where
  "new_HybridAuthController cacheInstance =
     Returned \<lparr>cache = cacheInstance, CACHE_KEY_PREFIX = ''user_session:'',
               CACHE_TTL_SECONDS = 1800, REFRESH_BEFORE_EXPIRY_SECONDS = 300\<rparr>"

definition basePermissions :: Permissions where
  "basePermissions =
     \<lparr>canBookClasses = False, canTeach = False, canManageShaalas = False,
      canViewAnalytics = False, maxBookingsPerDay = 0\<rparr>"

definition generatePermissions :: "string \<Rightarrow> Permissions" where
  "generatePermissions r =
     (if r = ''student'' then basePermissions\<lparr>canBookClasses := True, maxBookingsPerDay := 3\<rparr>
      else if r = ''teacher''
      then basePermissions\<lparr>canBookClasses := True, canTeach := True, canViewAnalytics := True,
             maxBookingsPerDay := 5\<rparr>
      else if r = ''shaala_owner''
      then basePermissions\<lparr>canBookClasses := True, canTeach := True, canManageShaalas := True,
             canViewAnalytics := True, maxBookingsPerDay := 10\<rparr>
      else basePermissions)"

text \<open>
  \<^verbatim>\<open>decoded.userId\<close> may be undefined: the template string of the cache key prints it as
  \<^verbatim>\<open>undefined\<close>, and \<^verbatim>\<open>findById(undefined)\<close> finds no document.
\<close>

definition js_template :: "string option \<Rightarrow> string" where
  "js_template v = (case v of None \<Rightarrow> ''undefined'' | Some s \<Rightarrow> s)"

definition findById :: "users \<Rightarrow> string option \<Rightarrow> User option" where
  "findById db uid = (case uid of None \<Rightarrow> None | Some i \<Rightarrow> db i)"

definition buildSessionData ::
  "HybridAuthController \<Rightarrow> int \<Rightarrow> users \<Rightarrow> string option \<Rightarrow> SessionSnapshot option" where
  "buildSessionData this now db uid =
     (case findById db uid of
        None \<Rightarrow> None
      | Some u \<Rightarrow>
          if \<not> user_isActive u then None
          else
            let tokenExpiresAt = now + 24 * 60 * 60 * 1000;
                refreshAt = tokenExpiresAt - REFRESH_BEFORE_EXPIRY_SECONDS this * 1000;
                cacheExpiresAt = now + CACHE_TTL_SECONDS this * 1000
            in Some
                 \<lparr>user = u\<lparr>user_preferences :=
                          Some (case user_preferences u of
                                  Some p \<Rightarrow> p
                                | None \<Rightarrow> \<lparr>theme = ''light'', language = ''en'', notifications = True\<rparr>)\<rparr>,
                  recentBookings = [],
                  permissions = generatePermissions (user_role u),
                  sessionMetadata =
                    \<lparr>tokenExpiresAt = tokenExpiresAt, refreshAt = refreshAt,
                     cacheExpiresAt = cacheExpiresAt\<rparr>\<rparr>)"

definition getCachedSession ::
  "HybridAuthController \<Rightarrow> int \<Rightarrow> string \<Rightarrow> SessionSnapshot option \<times> HybridAuthController" where
  "getCachedSession this now cacheKey =
     (case cache_get now (cache this) cacheKey of
        (cached, storage) \<Rightarrow> (cached, this\<lparr>cache := storage\<rparr>))"

definition cacheSession ::
  "HybridAuthController \<Rightarrow> int \<Rightarrow> string \<Rightarrow> SessionSnapshot \<Rightarrow> HybridAuthController" where
  "cacheSession this now cacheKey sessionData =
     this\<lparr>cache := cache_setex now (cache this) cacheKey (CACHE_TTL_SECONDS this) sessionData\<rparr>"

definition shouldRefreshCache :: "int \<Rightarrow> SessionSnapshot \<Rightarrow> bool" where
  "shouldRefreshCache now cachedSession = (now \<ge> refreshAt (sessionMetadata cachedSession))"

text \<open>
  The controller's own \<^verbatim>\<open>verifyToken\<close>: \<^verbatim>\<open>jwt.verify(token, process.env.JWT_SECRET!)\<close>,
  which throws when the secret is undefined or empty; any throw gives \<^verbatim>\<open>null\<close>.
\<close>

definition verifyToken :: "platform \<Rightarrow> int \<Rightarrow> string \<Rightarrow> string option option" where
  "verifyToken pf now token =
     (case env pf ''JWT_SECRET'' of
        None \<Rightarrow> None
      | Some secret \<Rightarrow>
          if secret = [] then None
          else (case jwt_verify pf token secret now of
                  Inr decoded \<Rightarrow> Some (decoded ''userId'')
                | Inl e \<Rightarrow> None))"

text \<open>
  \<^verbatim>\<open>getSessionData\<close>. Besides the result and the controller with its cache as the call
  leaves it, the model returns the number of calls of \<^verbatim>\<open>buildSessionData\<close> made.
\<close>

definition getSessionData ::
  "platform \<Rightarrow> HybridAuthController \<Rightarrow> int \<Rightarrow> users \<Rightarrow> string
     \<Rightarrow> SessionResult \<times> HybridAuthController \<times> nat" where
  "getSessionData pf this now db token =
     (case verifyToken pf now token of
        None \<Rightarrow> (Unauthenticated ''Invalid token'', this, 0)
      | Some uid \<Rightarrow>
          let cacheKey = CACHE_KEY_PREFIX this @ js_template uid in
          case getCachedSession this now cacheKey of
            (cachedSession, this1) \<Rightarrow>
              (case (case cachedSession of
                       Some c \<Rightarrow> if \<not> shouldRefreshCache now c then Some c else None
                     | None \<Rightarrow> None) of
                 Some c \<Rightarrow> (Authenticated c, this1, 0)
               | None \<Rightarrow>
                   (case buildSessionData this1 now db uid of
                      None \<Rightarrow> (Unauthenticated ''User not found'', this1, 1)
                    | Some sessionData \<Rightarrow>
                        (Authenticated sessionData, cacheSession this1 now cacheKey sessionData, 1))))"

section \<open>A small executable platform\<close>

text \<open>
  To run the definitions on concrete inputs: tokens are \<^verbatim>\<open>type.userId.key\<close>, signed by
  appending the key and verified by comparing it; like \<^verbatim>\<open>jsonwebtoken\<close>, it rejects the
  empty string and every string that is not three dot-separated parts free of white space
  with a \<^verbatim>\<open>JsonWebTokenError\<close>. The digest drops the dots. Both secrets are the same
  key, so that only the type claim tells an access token from a refresh token.
\<close>

fun splitDots :: "string \<Rightarrow> string list" where
  "splitDots [] = [[]]"
| "splitDots (c # cs) =
     (if c = CHR ''.'' then [] # splitDots cs
      else (case splitDots cs of [] \<Rightarrow> [[c]] | p # ps \<Rightarrow> (c # p) # ps))"

definition plainPart :: "string \<Rightarrow> bool" where
  "plainPart s = (s \<noteq> [] \<and> (\<forall>c \<in> set s. c \<noteq> CHR ''.'' \<and> \<not> js_whitespace c))"

definition demo_decode :: "string \<Rightarrow> claims option" where
  "demo_decode token =
     (if \<exists>c \<in> set token. js_whitespace c then None
      else (case splitDots token of
              [ty, uid, key] \<Rightarrow> Some [''type'' \<mapsto> ty, ''userId'' \<mapsto> uid]
            | _ \<Rightarrow> None))"

definition demo_verify :: "string \<Rightarrow> string \<Rightarrow> int \<Rightarrow> thrown + claims" where
  "demo_verify token secret now =
     (case demo_decode token of
        None \<Rightarrow> Inl JsonWebTokenError
      | Some d \<Rightarrow> if last (splitDots token) = secret then Inr d else Inl JsonWebTokenError)"

definition demo_sign :: "claims \<Rightarrow> string \<Rightarrow> SignOptions \<Rightarrow> int \<Rightarrow> thrown + string" where
  "demo_sign payload secret opts now =
     (case (payload ''type'', payload ''userId'') of
        (Some ty, Some uid) \<Rightarrow>
          if plainPart ty \<and> plainPart uid \<and> plainPart secret
          then Inr (ty @ ''.'' @ uid @ ''.'' @ secret)
          else Inl OtherThrown
      | _ \<Rightarrow> Inl OtherThrown)"

definition demo_digest :: "string \<Rightarrow> string" where
  "demo_digest token = filter (\<lambda>c. c \<noteq> CHR ''.'') token"

text \<open>The strings that cast to an ObjectId: 24 hexadecimal digits.\<close>

definition demo_isObjectId :: "string \<Rightarrow> bool" where
  "demo_isObjectId s = (length s = 24 \<and> set s \<subseteq> set ''0123456789abcdefABCDEF'')"

definition demo :: platform where
  "demo =
     \<lparr>jwt_sign = demo_sign, jwt_verify = demo_verify, jwt_decode = demo_decode,
      sha256_hex = demo_digest, isObjectId = demo_isObjectId,
      env = [''JWT_SECRET'' \<mapsto> ''k1'', ''JWT_REFRESH_SECRET'' \<mapsto> ''k1'']\<rparr>"

text \<open>Two devices of the principal \<^verbatim>\<open>64b7f0c2a1d3e4f5a6b7c8d9\<close>, and the session document of its refresh token.\<close>

definition device1 :: SessionData where
  "device1 = \<lparr>sd_userId = ''64b7f0c2a1d3e4f5a6b7c8d9'', sd_deviceInfo = ''Chrome Browser'', sd_ipAddress = ''10.0.0.1'',
              sd_userAgent = Some ''Chrome''\<rparr>"

definition device2 :: SessionData where
  "device2 = \<lparr>sd_userId = ''64b7f0c2a1d3e4f5a6b7c8d9'', sd_deviceInfo = ''Mobile Device'', sd_ipAddress = ''10.0.0.2'',
              sd_userAgent = Some ''Mobile Safari''\<rparr>"

definition session1 :: "int \<Rightarrow> SessionData \<Rightarrow> Session" where
  "session1 now sd =
     \<lparr>s_userId = ''64b7f0c2a1d3e4f5a6b7c8d9'', refreshTokenHash = ''refresh64b7f0c2a1d3e4f5a6b7c8d9k1'',
      deviceInfo = sd_deviceInfo sd, ipAddress = sd_ipAddress sd, userAgent = sd_userAgent sd,
      expiresAt = now + 604800000, isActive = True, createdAt = now, lastUsed = now,
      updatedAt = now, revokedAt = None\<rparr>"

text \<open>
  A user document, the snapshot \<^verbatim>\<open>buildSessionData\<close> makes of it at a given instant, and
  the controller as the constructor returns it for an empty cache.
\<close>

definition user1 :: User where
  "user1 =
     \<lparr>user_id = ''64b7f0c2a1d3e4f5a6b7c8d9'', user_email = ''u1@example.org'', user_name = ''U One'',
      user_avatar = None, user_role = ''student'', user_isActive = True,
      user_isVerified = True, user_preferences = None, user_lastLogin = None\<rparr>"

definition demo_users :: users where
  "demo_users = [''64b7f0c2a1d3e4f5a6b7c8d9'' \<mapsto> user1]"

definition snapshot1 :: "int \<Rightarrow> SessionSnapshot" where
  "snapshot1 now =
     \<lparr>user = user1\<lparr>user_preferences :=
               Some \<lparr>theme = ''light'', language = ''en'', notifications = True\<rparr>\<rparr>,
      recentBookings = [],
      permissions = generatePermissions ''student'',
      sessionMetadata =
        \<lparr>tokenExpiresAt = now + 86400000, refreshAt = now + 86100000,
         cacheExpiresAt = now + 1800000\<rparr>\<rparr>"

definition controller0 :: HybridAuthController where
  "controller0 =
     \<lparr>cache = Map.empty, CACHE_KEY_PREFIX = ''user_session:'',
      CACHE_TTL_SECONDS = 1800, REFRESH_BEFORE_EXPIRY_SECONDS = 300\<rparr>"

text \<open>
  A cache entry whose \<^verbatim>\<open>refreshAt\<close> is five minutes before its hard expiry, as the
  specification describes entries, held for \<^verbatim>\<open>64b7f0c2a1d3e4f5a6b7c8d9\<close>.
\<close>

definition staleEntry :: "SessionSnapshot CacheEntry" where
  "staleEntry =
     \<lparr>data = (snapshot1 0)\<lparr>sessionMetadata :=
               \<lparr>tokenExpiresAt = 86400000, refreshAt = 1500000, cacheExpiresAt = 1800000\<rparr>\<rparr>,
      entryExpiresAt = 1800000\<rparr>"

definition staleController :: HybridAuthController where
  "staleController = controller0\<lparr>cache := [''user_session:64b7f0c2a1d3e4f5a6b7c8d9'' \<mapsto> staleEntry]\<rparr>"

text \<open>The controller after the first session read of \<^verbatim>\<open>64b7f0c2a1d3e4f5a6b7c8d9\<close> at instant 0.\<close>

definition cachedController :: HybridAuthController where
  "cachedController =
     controller0\<lparr>cache := [''user_session:64b7f0c2a1d3e4f5a6b7c8d9'' \<mapsto>
                    \<lparr>data = snapshot1 0, entryExpiresAt = 1800000\<rparr>]\<rparr>"

section \<open>Properties\<close>

subsection \<open>The contract of the token library, and a platform that meets it\<close>

lemma contract_verified_decoded:
  "jsonwebtoken_contract pf \<Longrightarrow> jwt_verify pf token secret now = Inr d \<Longrightarrow> jwt_decode pf token = Some d"
  unfolding jsonwebtoken_contract_def by blast

lemma contract_decoded_no_space:
  "jsonwebtoken_contract pf \<Longrightarrow> jwt_decode pf token = Some d \<Longrightarrow> c \<in> set token \<Longrightarrow> \<not> js_whitespace c"
  unfolding jsonwebtoken_contract_def by blast

lemma contract_decoded_nonempty:
  "jsonwebtoken_contract pf \<Longrightarrow> jwt_decode pf token = Some d \<Longrightarrow> token \<noteq> []"
  unfolding jsonwebtoken_contract_def by blast

lemma contract_round_trip:
  "jsonwebtoken_contract pf \<Longrightarrow> expiresIn opts \<in> {ACCESS_TOKEN_EXPIRY, REFRESH_TOKEN_EXPIRY} \<Longrightarrow>
   jwt_sign pf payload secret opts now = Inr token \<Longrightarrow>
   now \<le> later \<Longrightarrow> later div 1000 < now div 1000 + expirySeconds (expiresIn opts) \<Longrightarrow>
   \<exists>d. jwt_verify pf token secret later = Inr d \<and>
       d ''userId'' = payload ''userId'' \<and> d ''type'' = payload ''type''"
  unfolding jsonwebtoken_contract_def by blast

lemma replaceBearer_no_space:
  assumes "\<forall>c \<in> set token. \<not> js_whitespace c"
  shows "replaceBearer token = token"
proof (cases "drop 6 token")
  case Nil
  then show ?thesis by (simp add: replaceBearer_def)
next
  case (Cons c rest)
  then have "c \<in> set (drop 6 token)" by simp
  then have "c \<in> set token" by (rule in_set_dropD)
  with assms have "\<not> js_whitespace c" by blast
  with Cons show ?thesis by (simp add: replaceBearer_def)
qed

lemma splitDots_plain: "CHR ''.'' \<notin> set k \<Longrightarrow> splitDots k = [k]"
  by (induction k) auto

lemma splitDots_append: "CHR ''.'' \<notin> set a \<Longrightarrow> splitDots (a @ CHR ''.'' # b) = a # splitDots b"
  by (induction a) auto

lemma plainPart_no_dot: "plainPart s \<Longrightarrow> CHR ''.'' \<notin> set s"
  by (auto simp: plainPart_def)

lemma plainPart_no_space: "plainPart s \<Longrightarrow> c \<in> set s \<Longrightarrow> \<not> js_whitespace c"
  by (auto simp: plainPart_def)

lemma splitDots_three:
  assumes "plainPart ty" "plainPart uid" "plainPart key"
  shows "splitDots (ty @ ''.'' @ uid @ ''.'' @ key) = [ty, uid, key]"
proof -
  have "splitDots (ty @ CHR ''.'' # (uid @ CHR ''.'' # key)) = ty # splitDots (uid @ CHR ''.'' # key)"
    by (rule splitDots_append[OF plainPart_no_dot[OF assms(1)]])
  also have "splitDots (uid @ CHR ''.'' # key) = uid # splitDots key"
    by (rule splitDots_append[OF plainPart_no_dot[OF assms(2)]])
  also have "splitDots key = [key]"
    by (rule splitDots_plain[OF plainPart_no_dot[OF assms(3)]])
  finally show ?thesis by simp
qed

lemma demo_verify_decoded: "demo_verify token secret now = Inr d \<Longrightarrow> demo_decode token = Some d"
  by (cases "demo_decode token") (simp_all add: demo_verify_def split: if_splits)

lemma demo_decoded_no_space: "demo_decode token = Some d \<Longrightarrow> c \<in> set token \<Longrightarrow> \<not> js_whitespace c"
  unfolding demo_decode_def by (cases "\<exists>c \<in> set token. js_whitespace c") auto

lemma demo_decoded_nonempty: "demo_decode token = Some d \<Longrightarrow> token \<noteq> []"
  by (auto simp: demo_decode_def)

lemma demo_sign_Inr:
  assumes "demo_sign payload secret opts now = Inr token"
  shows "\<exists>ty uid. payload ''type'' = Some ty \<and> payload ''userId'' = Some uid \<and>
           plainPart ty \<and> plainPart uid \<and> plainPart secret \<and>
           token = ty @ ''.'' @ uid @ ''.'' @ secret"
proof (cases "payload ''type''")
  case None
  with assms show ?thesis by (simp add: demo_sign_def)
next
  case (Some ty)
  note ty = this
  show ?thesis
  proof (cases "payload ''userId''")
    case None
    with assms ty show ?thesis by (simp add: demo_sign_def)
  next
    case (Some uid)
    with assms ty show ?thesis by (simp add: demo_sign_def split: if_splits)
  qed
qed

lemma demo_round_trip:
  assumes "demo_sign payload secret opts now = Inr token"
  shows "\<exists>d. demo_verify token secret later = Inr d \<and>
             d ''userId'' = payload ''userId'' \<and> d ''type'' = payload ''type''"
proof -
  from demo_sign_Inr[OF assms] obtain ty uid where
    p: "payload ''type'' = Some ty" "payload ''userId'' = Some uid"
    and pl: "plainPart ty" "plainPart uid" "plainPart secret"
    and t: "token = ty @ ''.'' @ uid @ ''.'' @ secret"
    by blast
  have sp: "splitDots token = [ty, uid, secret]"
    unfolding t by (rule splitDots_three[OF pl])
  have "\<And>c. c \<in> set token \<Longrightarrow> \<not> js_whitespace c"
    unfolding t using pl by (auto simp: js_whitespace_def dest: plainPart_no_space)
  then have ns: "\<not> (\<exists>c \<in> set token. js_whitespace c)" by blast
  have dec: "demo_decode token = Some [''type'' \<mapsto> ty, ''userId'' \<mapsto> uid]"
    using ns sp by (simp add: demo_decode_def)
  have "demo_verify token secret later = Inr [''type'' \<mapsto> ty, ''userId'' \<mapsto> uid]"
    using dec sp by (simp add: demo_verify_def)
  with p show ?thesis by simp
qed

lemma demo_contract: "jsonwebtoken_contract demo"
  unfolding jsonwebtoken_contract_def
proof (intro conjI allI impI ballI)
  fix token secret now d
  assume "jwt_verify demo token secret now = Inr d"
  then show "jwt_decode demo token = Some d"
    by (simp add: demo_def demo_verify_decoded)
next
  fix token d
  assume "jwt_decode demo token = Some d"
  then show "token \<noteq> []"
    using demo_decoded_nonempty[of token d] by (simp add: demo_def)
next
  fix token d c
  assume "jwt_decode demo token = Some d" "c \<in> set token"
  then show "\<not> js_whitespace c"
    using demo_decoded_no_space[of token d c] by (simp add: demo_def)
next
  fix payload secret opts now later token
  assume "jwt_sign demo payload secret opts now = Inr token"
  then have "demo_sign payload secret opts now = Inr token" by (simp add: demo_def)
  from demo_round_trip[OF this, of later]
  show "\<exists>d. jwt_verify demo token secret later = Inr d \<and>
             d ''userId'' = payload ''userId'' \<and> d ''type'' = payload ''type''"
    by (simp add: demo_def)
qed

subsection \<open>The two verifiers\<close>

lemma verifyAccessToken_Inr:
  assumes "token \<noteq> []"
    and "jwt_verify pf (replaceBearer token) (getSecret pf ''access'') now = Inr d"
  shows "verifyAccessToken pf now token =
           (if d ''type'' \<noteq> Some ''access'' then None
            else case d ''userId'' of
                   None \<Rightarrow> None
                 | Some uid \<Rightarrow> if uid = [] then None
                               else Some \<lparr>userId = uid, isValid = True, error = None\<rparr>)"
  using assms by (simp add: verifyAccessToken_def)

lemma verifyAccessToken_Inl:
  assumes "token \<noteq> []"
    and "jwt_verify pf (replaceBearer token) (getSecret pf ''access'') now = Inl e"
  shows "\<not> accepted (verifyAccessToken pf now token)"
  using assms by (simp add: verifyAccessToken_def accepted_def)

lemma verifyRefreshToken_Inr:
  assumes "token \<noteq> []"
    and "jwt_verify pf token (getSecret pf ''refresh'') now = Inr d"
  shows "verifyRefreshToken pf now token =
           (if d ''type'' \<noteq> Some ''refresh'' then None
            else case d ''userId'' of
                   None \<Rightarrow> None
                 | Some uid \<Rightarrow> if uid = [] then None
                               else Some \<lparr>userId = uid, isValid = True, error = None\<rparr>)"
  using assms by (simp add: verifyRefreshToken_def)

lemma verifyRefreshToken_Inl:
  assumes "token \<noteq> []"
    and "jwt_verify pf token (getSecret pf ''refresh'') now = Inl e"
  shows "\<not> accepted (verifyRefreshToken pf now token)"
  using assms by (simp add: verifyRefreshToken_def accepted_def)

lemma verifyAccessToken_accepted:
  assumes "accepted (verifyAccessToken pf now token)"
  shows "\<exists>d. jwt_verify pf (replaceBearer token) (getSecret pf ''access'') now = Inr d \<and>
             d ''type'' = Some ''access''"
proof -
  have ne: "token \<noteq> []"
    using assms by (auto simp: verifyAccessToken_def accepted_def)
  show ?thesis
  proof (cases "jwt_verify pf (replaceBearer token) (getSecret pf ''access'') now")
    case (Inl e)
    from verifyAccessToken_Inl[OF ne Inl] assms show ?thesis by simp
  next
    case (Inr d)
    have "d ''type'' = Some ''access''"
    proof (rule ccontr)
      assume "d ''type'' \<noteq> Some ''access''"
      with verifyAccessToken_Inr[OF ne Inr] assms show False by (simp add: accepted_def)
    qed
    with Inr show ?thesis by simp
  qed
qed

lemma verifyRefreshToken_accepted:
  assumes "accepted (verifyRefreshToken pf now token)"
  shows "\<exists>d. jwt_verify pf token (getSecret pf ''refresh'') now = Inr d \<and>
             d ''type'' = Some ''refresh''"
proof -
  have ne: "token \<noteq> []"
    using assms by (auto simp: verifyRefreshToken_def accepted_def)
  show ?thesis
  proof (cases "jwt_verify pf token (getSecret pf ''refresh'') now")
    case (Inl e)
    from verifyRefreshToken_Inl[OF ne Inl] assms show ?thesis by simp
  next
    case (Inr d)
    have "d ''type'' = Some ''refresh''"
    proof (rule ccontr)
      assume "d ''type'' \<noteq> Some ''refresh''"
      with verifyRefreshToken_Inr[OF ne Inr] assms show False by (simp add: accepted_def)
    qed
    with Inr show ?thesis by simp
  qed
qed

lemma typeClaim_decoded: "jwt_decode pf token = Some d \<Longrightarrow> typeClaim pf token = d ''type''"
  by (simp add: typeClaim_def)

lemma typeClaim_no_space:
  assumes "jsonwebtoken_contract pf" "typeClaim pf token = Some ty"
  shows "replaceBearer token = token"
proof -
  from assms(2) obtain d where "jwt_decode pf token = Some d"
    by (cases "jwt_decode pf token") (simp_all add: typeClaim_def)
  then have "\<forall>c \<in> set token. \<not> js_whitespace c"
    using contract_decoded_no_space[OF assms(1)] by blast
  then show ?thesis by (rule replaceBearer_no_space)
qed

text \<open>
  Claim C7. \<^verbatim>\<open>verifyAccessToken\<close> never returns a valid result for a token whose embedded
  type claim is \<^verbatim>\<open>refresh\<close>, and \<^verbatim>\<open>verifyRefreshToken\<close> never returns one for a token
  whose type claim is \<^verbatim>\<open>access\<close>; whenever a verifier returns a valid result, the type
  claim of the token it verified (for the access verifier, the token after the
  \<^verbatim>\<open>Bearer\<close> prefix is removed) is the verifier's own kind. This holds for every input
  string, every clock and every environment.
\<close>
theorem verifiers_accept_own_type_only:
  assumes "jsonwebtoken_contract pf"
  shows "(typeClaim pf token = Some ''refresh'' \<longrightarrow> \<not> accepted (verifyAccessToken pf now token)) \<and>
         (typeClaim pf token = Some ''access'' \<longrightarrow> \<not> accepted (verifyRefreshToken pf now token)) \<and>
         (accepted (verifyAccessToken pf now token) \<longrightarrow> typeClaim pf (replaceBearer token) = Some ''access'') \<and>
         (accepted (verifyRefreshToken pf now token) \<longrightarrow> typeClaim pf token = Some ''refresh'')"
proof -
  have acc: "typeClaim pf (replaceBearer token) = Some ''access''"
    if a: "accepted (verifyAccessToken pf now token)"
  proof -
    from verifyAccessToken_accepted[OF a] obtain d where
      v: "jwt_verify pf (replaceBearer token) (getSecret pf ''access'') now = Inr d"
      and t: "d ''type'' = Some ''access''" by blast
    from typeClaim_decoded[OF contract_verified_decoded[OF assms v]] t show ?thesis by simp
  qed
  have ref: "typeClaim pf token = Some ''refresh''"
    if a: "accepted (verifyRefreshToken pf now token)"
  proof -
    from verifyRefreshToken_accepted[OF a] obtain d where
      v: "jwt_verify pf token (getSecret pf ''refresh'') now = Inr d"
      and t: "d ''type'' = Some ''refresh''" by blast
    from typeClaim_decoded[OF contract_verified_decoded[OF assms v]] t show ?thesis by simp
  qed
  have one: "\<not> accepted (verifyAccessToken pf now token)" if r: "typeClaim pf token = Some ''refresh''"
  proof
    assume "accepted (verifyAccessToken pf now token)"
    from acc[OF this] typeClaim_no_space[OF assms r] r show False by simp
  qed
  have two: "\<not> accepted (verifyRefreshToken pf now token)" if r: "typeClaim pf token = Some ''access''"
  proof
    assume "accepted (verifyRefreshToken pf now token)"
    from ref[OF this] r show False by simp
  qed
  from acc ref one two show ?thesis by blast
qed


lemma demo_secrets: "getSecret demo ''access'' = ''k1''" "getSecret demo ''refresh'' = ''k1''"
  by (simp_all add: getSecret_def demo_def js_or_def)

lemma demo_decode_refresh_u1:
  "demo_decode ''refresh.64b7f0c2a1d3e4f5a6b7c8d9.k1'' = Some [''type'' \<mapsto> ''refresh'', ''userId'' \<mapsto> ''64b7f0c2a1d3e4f5a6b7c8d9'']"
  by (simp add: demo_decode_def js_whitespace_def)

lemma demo_decode_access_u1:
  "demo_decode ''access.64b7f0c2a1d3e4f5a6b7c8d9.k1'' = Some [''type'' \<mapsto> ''access'', ''userId'' \<mapsto> ''64b7f0c2a1d3e4f5a6b7c8d9'']"
  by (simp add: demo_decode_def js_whitespace_def)

lemma demo_verify_refresh_u1:
  "jwt_verify demo ''refresh.64b7f0c2a1d3e4f5a6b7c8d9.k1'' ''k1'' now = Inr [''type'' \<mapsto> ''refresh'', ''userId'' \<mapsto> ''64b7f0c2a1d3e4f5a6b7c8d9'']"
  by (simp add: demo_def demo_verify_def demo_decode_refresh_u1)

lemma demo_verify_access_u1:
  "jwt_verify demo ''access.64b7f0c2a1d3e4f5a6b7c8d9.k1'' ''k1'' now = Inr [''type'' \<mapsto> ''access'', ''userId'' \<mapsto> ''64b7f0c2a1d3e4f5a6b7c8d9'']"
  by (simp add: demo_def demo_verify_def demo_decode_access_u1)

lemma replaceBearer_access_u1: "replaceBearer ''access.64b7f0c2a1d3e4f5a6b7c8d9.k1'' = ''access.64b7f0c2a1d3e4f5a6b7c8d9.k1''"
  by (simp add: replaceBearer_def)

lemma replaceBearer_refresh_u1: "replaceBearer ''refresh.64b7f0c2a1d3e4f5a6b7c8d9.k1'' = ''refresh.64b7f0c2a1d3e4f5a6b7c8d9.k1''"
  by (simp add: replaceBearer_def)

lemma demo_verifyRefreshToken_u1:
  "verifyRefreshToken demo now ''refresh.64b7f0c2a1d3e4f5a6b7c8d9.k1'' = Some \<lparr>userId = ''64b7f0c2a1d3e4f5a6b7c8d9'', isValid = True, error = None\<rparr>"
  by (simp add: verifyRefreshToken_def demo_secrets demo_verify_refresh_u1)

lemma demo_verifyAccessToken_u1:
  "verifyAccessToken demo now ''access.64b7f0c2a1d3e4f5a6b7c8d9.k1'' = Some \<lparr>userId = ''64b7f0c2a1d3e4f5a6b7c8d9'', isValid = True, error = None\<rparr>"
  by (simp add: verifyAccessToken_def demo_secrets demo_verify_access_u1 replaceBearer_access_u1)

text \<open>
  C7 on the demo platform: a refresh token is refused by the access verifier and accepted
  by the refresh verifier, and the other way round for an access token, although both
  carry a good signature under the one key.
\<close>
theorem verifiers_accept_own_type_only_witness:
  "jsonwebtoken_contract demo \<and>
   typeClaim demo ''refresh.64b7f0c2a1d3e4f5a6b7c8d9.k1'' = Some ''refresh'' \<and>
   \<not> accepted (verifyAccessToken demo 0 ''refresh.64b7f0c2a1d3e4f5a6b7c8d9.k1'') \<and>
   typeClaim demo ''access.64b7f0c2a1d3e4f5a6b7c8d9.k1'' = Some ''access'' \<and>
   \<not> accepted (verifyRefreshToken demo 0 ''access.64b7f0c2a1d3e4f5a6b7c8d9.k1'') \<and>
   accepted (verifyAccessToken demo 0 ''access.64b7f0c2a1d3e4f5a6b7c8d9.k1'') \<and>
   typeClaim demo (replaceBearer ''access.64b7f0c2a1d3e4f5a6b7c8d9.k1'') = Some ''access'' \<and>
   accepted (verifyRefreshToken demo 0 ''refresh.64b7f0c2a1d3e4f5a6b7c8d9.k1'')"
proof -
  have r: "typeClaim demo ''refresh.64b7f0c2a1d3e4f5a6b7c8d9.k1'' = Some ''refresh''"
    by (simp add: typeClaim_def demo_def demo_decode_refresh_u1)
  have a: "typeClaim demo ''access.64b7f0c2a1d3e4f5a6b7c8d9.k1'' = Some ''access''"
    by (simp add: typeClaim_def demo_def demo_decode_access_u1)
  have va: "accepted (verifyAccessToken demo 0 ''access.64b7f0c2a1d3e4f5a6b7c8d9.k1'')"
    by (simp add: demo_verifyAccessToken_u1 accepted_def)
  have vr: "accepted (verifyRefreshToken demo 0 ''refresh.64b7f0c2a1d3e4f5a6b7c8d9.k1'')"
    by (simp add: demo_verifyRefreshToken_u1 accepted_def)
  from verifiers_accept_own_type_only[OF demo_contract, of "''refresh.64b7f0c2a1d3e4f5a6b7c8d9.k1''" 0] r
  have 1: "\<not> accepted (verifyAccessToken demo 0 ''refresh.64b7f0c2a1d3e4f5a6b7c8d9.k1'')" by blast
  from verifiers_accept_own_type_only[OF demo_contract, of "''access.64b7f0c2a1d3e4f5a6b7c8d9.k1''" 0] a va
  have 2: "\<not> accepted (verifyRefreshToken demo 0 ''access.64b7f0c2a1d3e4f5a6b7c8d9.k1'')"
    and 3: "typeClaim demo (replaceBearer ''access.64b7f0c2a1d3e4f5a6b7c8d9.k1'') = Some ''access''" by blast+
  from demo_contract r a va vr 1 2 3 show ?thesis by blast
qed

subsection \<open>The Bearer prefix\<close>

lemma replaceBearer_prefixed:
  assumes "case token of [] \<Rightarrow> False | c # _ \<Rightarrow> \<not> js_whitespace c"
  shows "replaceBearer (''Bearer '' @ token) = token"
proof (cases token)
  case Nil
  with assms show ?thesis by simp
next
  case (Cons c rest)
  with assms have "\<not> js_whitespace c" by simp
  with Cons show ?thesis by (simp add: replaceBearer_def js_whitespace_def)
qed

lemma verifyAccessToken_clean:
  assumes "a \<noteq> []" "b \<noteq> []" "replaceBearer a = replaceBearer b"
  shows "verifyAccessToken pf now a = verifyAccessToken pf now b"
  using assms by (simp add: verifyAccessToken_def)

lemma verifyRefreshToken_space:
  assumes "jsonwebtoken_contract pf" "c \<in> set token" "js_whitespace c"
  shows "\<not> accepted (verifyRefreshToken pf now token)"
proof
  assume "accepted (verifyRefreshToken pf now token)"
  from verifyRefreshToken_accepted[OF this] obtain d where
    "jwt_verify pf token (getSecret pf ''refresh'') now = Inr d" by blast
  from contract_decoded_no_space[OF assms(1) contract_verified_decoded[OF assms(1) this] assms(2)] assms(3)
  show False by simp
qed

text \<open>
  Claim C10, as amended. For every token that is not empty, does not start with white
  space and does not itself start with a \<^verbatim>\<open>Bearer\<close> prefix that the verifier would
  remove, \<^verbatim>\<open>verifyAccessToken("Bearer " + t)\<close> returns what \<^verbatim>\<open>verifyAccessToken(t)\<close>
  returns. \<^verbatim>\<open>verifyRefreshToken\<close> removes no prefix: it never returns a valid result for
  a string \<^verbatim>\<open>"Bearer " + t\<close>, whatever \<open>t\<close> is.
\<close>
theorem bearer_prefix_access_only:
  assumes "jsonwebtoken_contract pf"
  shows "((case token of [] \<Rightarrow> False | c # _ \<Rightarrow> \<not> js_whitespace c) \<and> replaceBearer token = token
            \<longrightarrow> verifyAccessToken pf now (''Bearer '' @ token) = verifyAccessToken pf now token) \<and>
         \<not> accepted (verifyRefreshToken pf now (''Bearer '' @ token))"
proof (intro conjI impI)
  assume h: "(case token of [] \<Rightarrow> False | c # _ \<Rightarrow> \<not> js_whitespace c) \<and> replaceBearer token = token"
  then have ne: "token \<noteq> []" by (cases token) simp_all
  from h have p: "replaceBearer (''Bearer '' @ token) = token"
    by (intro replaceBearer_prefixed) blast
  show "verifyAccessToken pf now (''Bearer '' @ token) = verifyAccessToken pf now token"
  proof (rule verifyAccessToken_clean)
    show "''Bearer '' @ token \<noteq> []" by simp
    show "token \<noteq> []" by (rule ne)
    from h p show "replaceBearer (''Bearer '' @ token) = replaceBearer token" by simp
  qed
next
  have "CHR '' '' \<in> set (''Bearer '' @ token)" by simp
  moreover have "js_whitespace CHR '' ''" by (simp add: js_whitespace_def)
  ultimately show "\<not> accepted (verifyRefreshToken pf now (''Bearer '' @ token))"
    by (rule verifyRefreshToken_space[OF assms])
qed

text \<open>
  C10 on the demo platform: the prefixed access token verifies as the bare one does, and
  the prefixed refresh token is refused while the bare one is accepted.
\<close>
theorem bearer_prefix_access_only_witness:
  "jsonwebtoken_contract demo \<and>
   (case ''access.64b7f0c2a1d3e4f5a6b7c8d9.k1'' of [] \<Rightarrow> False | c # _ \<Rightarrow> \<not> js_whitespace c) \<and>
   replaceBearer ''access.64b7f0c2a1d3e4f5a6b7c8d9.k1'' = ''access.64b7f0c2a1d3e4f5a6b7c8d9.k1'' \<and>
   verifyAccessToken demo 0 (''Bearer '' @ ''access.64b7f0c2a1d3e4f5a6b7c8d9.k1'') = verifyAccessToken demo 0 ''access.64b7f0c2a1d3e4f5a6b7c8d9.k1'' \<and>
   accepted (verifyAccessToken demo 0 (''Bearer '' @ ''access.64b7f0c2a1d3e4f5a6b7c8d9.k1'')) \<and>
   accepted (verifyRefreshToken demo 0 ''refresh.64b7f0c2a1d3e4f5a6b7c8d9.k1'') \<and>
   \<not> accepted (verifyRefreshToken demo 0 (''Bearer '' @ ''refresh.64b7f0c2a1d3e4f5a6b7c8d9.k1''))"
proof -
  have f: "case ''access.64b7f0c2a1d3e4f5a6b7c8d9.k1'' of [] \<Rightarrow> False | c # _ \<Rightarrow> \<not> js_whitespace c"
    by (simp add: js_whitespace_def)
  from bearer_prefix_access_only[OF demo_contract, of "''access.64b7f0c2a1d3e4f5a6b7c8d9.k1''" 0] f replaceBearer_access_u1
  have e: "verifyAccessToken demo 0 (''Bearer '' @ ''access.64b7f0c2a1d3e4f5a6b7c8d9.k1'') = verifyAccessToken demo 0 ''access.64b7f0c2a1d3e4f5a6b7c8d9.k1''"
    by blast
  then have v: "accepted (verifyAccessToken demo 0 (''Bearer '' @ ''access.64b7f0c2a1d3e4f5a6b7c8d9.k1''))"
    by (simp only: demo_verifyAccessToken_u1 accepted_def) simp
  have vr: "accepted (verifyRefreshToken demo 0 ''refresh.64b7f0c2a1d3e4f5a6b7c8d9.k1'')"
    by (simp add: demo_verifyRefreshToken_u1 accepted_def)
  from bearer_prefix_access_only[OF demo_contract, of "''refresh.64b7f0c2a1d3e4f5a6b7c8d9.k1''" 0]
  have n: "\<not> accepted (verifyRefreshToken demo 0 (''Bearer '' @ ''refresh.64b7f0c2a1d3e4f5a6b7c8d9.k1''))" by blast
  from demo_contract f replaceBearer_access_u1 e v vr n show ?thesis by blast
qed

lemma demo_verify_empty: "jwt_verify demo [] secret now = Inl JsonWebTokenError"
  by (simp add: demo_def demo_verify_def demo_decode_def)

text \<open>
  C10 as stated fails at the empty string: \<^verbatim>\<open>verifyAccessToken("")\<close> returns
  \<^verbatim>\<open>null\<close> at the guard \<^verbatim>\<open>!token\<close>, while \<^verbatim>\<open>verifyAccessToken("Bearer ")\<close> passes the
  guard, verifies the empty string and returns the result
  \<^verbatim>\<open>{userId: "", isValid: false, error: "Invalid token signature"}\<close>.
\<close>
theorem bearer_prefix_empty_token_differs:
  "verifyAccessToken demo 0 (''Bearer '' @ []) \<noteq> verifyAccessToken demo 0 []"
proof -
  have "replaceBearer ''Bearer '' = []"
    by (simp add: replaceBearer_def js_whitespace_def)
  then have "verifyAccessToken demo 0 ''Bearer '' =
      Some \<lparr>userId = [], isValid = False, error = Some ''Invalid token signature''\<rparr>"
    by (simp add: verifyAccessToken_def demo_verify_empty instanceof_JsonWebTokenError_def)
  moreover have "verifyAccessToken demo 0 [] = None"
    by (simp add: verifyAccessToken_def)
  ultimately show ?thesis by simp
qed


subsection \<open>Issuing an access token and verifying it\<close>

lemma generateAccessToken_Inr:
  assumes "generateAccessToken pf now P ac = Inr token"
  shows "P \<noteq> [] \<and>
         jwt_sign pf (accessPayload P ac) (getSecret pf ''access'')
           (signOptions pf ACCESS_TOKEN_EXPIRY) now = Inr token"
proof (cases "P = []")
  case True
  with assms show ?thesis by (simp add: generateAccessToken_def)
next
  case False
  then show ?thesis
    using assms
    by (cases "jwt_sign pf (accessPayload P ac) (getSecret pf ''access'')
                 (signOptions pf ACCESS_TOKEN_EXPIRY) now")
       (simp_all add: generateAccessToken_def)
qed

lemma access_round_trip:
  assumes c: "jsonwebtoken_contract pf"
    and g: "generateAccessToken pf now P None = Inr token"
    and l: "now \<le> later" "later div 1000 < now div 1000 + 900"
  shows "verifyAccessToken pf later token = Some \<lparr>userId = P, isValid = True, error = None\<rparr>"
proof -
  from generateAccessToken_Inr[OF g] have ne: "P \<noteq> []"
    and s: "jwt_sign pf (accessPayload P None) (getSecret pf ''access'')
              (signOptions pf ACCESS_TOKEN_EXPIRY) now = Inr token" by blast+
  have e: "expiresIn (signOptions pf ACCESS_TOKEN_EXPIRY) \<in> {ACCESS_TOKEN_EXPIRY, REFRESH_TOKEN_EXPIRY}"
    by (simp add: signOptions_def)
  have x: "later div 1000 < now div 1000 + expirySeconds (expiresIn (signOptions pf ACCESS_TOKEN_EXPIRY))"
    using l(2) by (simp add: signOptions_def ACCESS_TOKEN_EXPIRY_def expirySeconds_def)
  from contract_round_trip[OF c e s l(1) x] obtain d where
    v: "jwt_verify pf token (getSecret pf ''access'') later = Inr d"
    and u: "d ''userId'' = accessPayload P None ''userId''"
    and t: "d ''type'' = accessPayload P None ''type''" by blast
  have u': "d ''userId'' = Some P" using u by (simp add: accessPayload_def)
  have t': "d ''type'' = Some ''access''" using t by (simp add: accessPayload_def)
  from contract_verified_decoded[OF c v] have dec: "jwt_decode pf token = Some d" .
  have tne: "token \<noteq> []" by (rule contract_decoded_nonempty[OF c dec])
  have "\<forall>c \<in> set token. \<not> js_whitespace c"
    using contract_decoded_no_space[OF c dec] by blast
  then have same: "replaceBearer token = token" by (rule replaceBearer_no_space)
  from v same have "jwt_verify pf (replaceBearer token) (getSecret pf ''access'') later = Inr d"
    by simp
  from verifyAccessToken_Inr[OF tne this] u' t' ne show ?thesis by simp
qed

lemma generateTokenPair_Inr:
  assumes "generateTokenPair pf now store P sd = (Inr (a, r), store')"
  shows "generateAccessToken pf now P None = Inr a \<and> generateRefreshToken pf now P = Inr r \<and>
         createSession pf now store P r sd = (Inr (), store')"
proof (cases "generateAccessToken pf now P None")
  case (Inl e)
  with assms show ?thesis by (simp add: generateTokenPair_def)
next
  case (Inr a')
  note a = this
  show ?thesis
  proof (cases "generateRefreshToken pf now P")
    case (Inl e)
    with assms a show ?thesis by (simp add: generateTokenPair_def)
  next
    case (Inr r')
    note r = this
    obtain res st where cs: "createSession pf now store P r' sd = (res, st)"
      by (cases "createSession pf now store P r' sd")
    show ?thesis
    proof (cases res)
      case (Inl e)
      with assms a r cs show ?thesis by (simp add: generateTokenPair_def)
    next
      case (Inr u)
      with assms a r cs show ?thesis by (simp add: generateTokenPair_def)
    qed
  qed
qed

text \<open>
  Claim C2. For every non-empty principal id \<open>P\<close>, an access token generated for \<open>P\<close>
  as the token-pair path generates it (no additional claims), verified by
  \<^verbatim>\<open>verifyAccessToken\<close> at the instant of its generation, or at any later instant before
  the clock in whole seconds reaches the second of generation plus 900, gives the result
  with \<^verbatim>\<open>userId\<close> \<open>P\<close> and \<^verbatim>\<open>isValid\<close> true; so does the access token of every pair
  that \<^verbatim>\<open>generateTokenPair\<close> returns.
\<close>
theorem issued_access_token_verifies:
  assumes "jsonwebtoken_contract pf"
    and "now \<le> later" "later div 1000 < now div 1000 + 900"
  shows "(P \<noteq> [] \<and> generateAccessToken pf now P None = Inr accessToken
            \<longrightarrow> verifyAccessToken pf later accessToken =
                  Some \<lparr>userId = P, isValid = True, error = None\<rparr>) \<and>
         (generateTokenPair pf now store P sessionData = (Inr (accessToken, refreshToken), store')
            \<longrightarrow> verifyAccessToken pf later accessToken =
                  Some \<lparr>userId = P, isValid = True, error = None\<rparr>)"
proof (intro conjI impI)
  assume "P \<noteq> [] \<and> generateAccessToken pf now P None = Inr accessToken"
  then have "generateAccessToken pf now P None = Inr accessToken" by blast
  then show "verifyAccessToken pf later accessToken = Some \<lparr>userId = P, isValid = True, error = None\<rparr>"
    using assms(2,3) by (rule access_round_trip[OF assms(1)])
next
  assume "generateTokenPair pf now store P sessionData = (Inr (accessToken, refreshToken), store')"
  from generateTokenPair_Inr[OF this]
  have "generateAccessToken pf now P None = Inr accessToken" by blast
  then show "verifyAccessToken pf later accessToken = Some \<lparr>userId = P, isValid = True, error = None\<rparr>"
    using assms(2,3) by (rule access_round_trip[OF assms(1)])
qed

lemma demo_fields:
  "jwt_sign demo = demo_sign" "jwt_verify demo = demo_verify" "jwt_decode demo = demo_decode"
  "sha256_hex demo = demo_digest" "isObjectId demo = demo_isObjectId"
  by (simp_all add: demo_def)

lemma demo_generateAccessToken_u1: "generateAccessToken demo now ''64b7f0c2a1d3e4f5a6b7c8d9'' None = Inr ''access.64b7f0c2a1d3e4f5a6b7c8d9.k1''"
  by (simp add: generateAccessToken_def demo_secrets demo_fields demo_sign_def accessPayload_def
      plainPart_def js_whitespace_def)

lemma demo_generateRefreshToken_u1: "generateRefreshToken demo now ''64b7f0c2a1d3e4f5a6b7c8d9'' = Inr ''refresh.64b7f0c2a1d3e4f5a6b7c8d9.k1''"
  by (simp add: generateRefreshToken_def demo_secrets demo_fields demo_sign_def refreshPayload_def
      plainPart_def js_whitespace_def)

lemma demo_digest_refresh_u1: "sha256_hex demo ''refresh.64b7f0c2a1d3e4f5a6b7c8d9.k1'' = ''refresh64b7f0c2a1d3e4f5a6b7c8d9k1''"
  by (simp add: demo_fields demo_digest_def)

lemma demo_isObjectId_u1: "isObjectId demo ''64b7f0c2a1d3e4f5a6b7c8d9''"
  by (simp add: demo_fields demo_isObjectId_def)

lemma device_ipAddress: "sd_ipAddress device1 \<noteq> []" "sd_ipAddress device2 \<noteq> []"
  by (simp_all add: device1_def device2_def)

lemma demo_createSession_u1:
  assumes "sd_ipAddress sd \<noteq> []"
  shows "createSession demo now store ''64b7f0c2a1d3e4f5a6b7c8d9'' ''refresh.64b7f0c2a1d3e4f5a6b7c8d9.k1'' sd = (Inr (), store @ [session1 now sd])"
  using assms
  by (simp add: createSession_def hashRefreshToken_def demo_digest_refresh_u1 session1_def
      schemaAccepts_def demo_isObjectId_u1 Let_def)

lemma demo_generateTokenPair_u1:
  assumes "sd_ipAddress sd \<noteq> []"
  shows "generateTokenPair demo now store ''64b7f0c2a1d3e4f5a6b7c8d9'' sd =
     (Inr (''access.64b7f0c2a1d3e4f5a6b7c8d9.k1'', ''refresh.64b7f0c2a1d3e4f5a6b7c8d9.k1''), store @ [session1 now sd])"
  by (simp add: generateTokenPair_def demo_generateAccessToken_u1 demo_generateRefreshToken_u1
      demo_createSession_u1[OF assms])

text \<open>C2 on the demo platform, for the principal \<^verbatim>\<open>64b7f0c2a1d3e4f5a6b7c8d9\<close>.\<close>
theorem issued_access_token_verifies_witness:
  "jsonwebtoken_contract demo \<and> (0 :: int) \<le> 5 \<and> (5 :: int) div 1000 < 0 div 1000 + 900 \<and>
   ''64b7f0c2a1d3e4f5a6b7c8d9'' \<noteq> [] \<and>
   generateAccessToken demo 0 ''64b7f0c2a1d3e4f5a6b7c8d9'' None = Inr ''access.64b7f0c2a1d3e4f5a6b7c8d9.k1'' \<and>
   generateTokenPair demo 0 [] ''64b7f0c2a1d3e4f5a6b7c8d9'' device1 =
     (Inr (''access.64b7f0c2a1d3e4f5a6b7c8d9.k1'', ''refresh.64b7f0c2a1d3e4f5a6b7c8d9.k1''), [session1 0 device1]) \<and>
   verifyAccessToken demo 5 ''access.64b7f0c2a1d3e4f5a6b7c8d9.k1'' = Some \<lparr>userId = ''64b7f0c2a1d3e4f5a6b7c8d9'', isValid = True, error = None\<rparr>"
proof -
  have g: "generateAccessToken demo 0 ''64b7f0c2a1d3e4f5a6b7c8d9'' None = Inr ''access.64b7f0c2a1d3e4f5a6b7c8d9.k1''"
    by (rule demo_generateAccessToken_u1)
  have p: "generateTokenPair demo 0 [] ''64b7f0c2a1d3e4f5a6b7c8d9'' device1 =
     (Inr (''access.64b7f0c2a1d3e4f5a6b7c8d9.k1'', ''refresh.64b7f0c2a1d3e4f5a6b7c8d9.k1''), [session1 0 device1])"
    by (simp add: demo_generateTokenPair_u1[OF device_ipAddress(1)])
  have t: "(0 :: int) \<le> 5" "(5 :: int) div 1000 < 0 div 1000 + 900" by simp_all
  from issued_access_token_verifies[OF demo_contract t, of "''64b7f0c2a1d3e4f5a6b7c8d9''" "''access.64b7f0c2a1d3e4f5a6b7c8d9.k1''"] g
  have "verifyAccessToken demo 5 ''access.64b7f0c2a1d3e4f5a6b7c8d9.k1'' = Some \<lparr>userId = ''64b7f0c2a1d3e4f5a6b7c8d9'', isValid = True, error = None\<rparr>"
    by simp
  with demo_contract t g p show ?thesis by simp
qed

subsection \<open>Creating a session\<close>

lemma createSession_ok:
  assumes "uid \<noteq> []" "refreshToken \<noteq> []" "isObjectId pf uid"
    "sha256_hex pf refreshToken \<noteq> []" "sd_ipAddress sd \<noteq> []"
  shows "createSession pf now store uid refreshToken sd =
           (Inr (),
            store @
              [\<lparr>s_userId = uid, refreshTokenHash = sha256_hex pf refreshToken,
                deviceInfo = sd_deviceInfo sd, ipAddress = sd_ipAddress sd,
                userAgent = sd_userAgent sd,
                expiresAt = now + 604800000, isActive = True,
                createdAt = now, lastUsed = now, updatedAt = now, revokedAt = None\<rparr>])"
  using assms by (simp add: createSession_def hashRefreshToken_def schemaAccepts_def Let_def)

lemma createSession_Inl:
  assumes "uid = [] \<or> refreshToken = [] \<or> \<not> isObjectId pf uid \<or>
           sha256_hex pf refreshToken = [] \<or> sd_ipAddress sd = []"
  shows "createSession pf now store uid refreshToken sd =
           (Inl (TokenError ''Failed to create session'' ''SESSION_CREATION_FAILED''), store)"
proof (cases "uid = [] \<or> refreshToken = []")
  case True
  then show ?thesis by (simp add: createSession_def)
next
  case False
  with assms have "\<not> isObjectId pf uid \<or> sha256_hex pf refreshToken = [] \<or> sd_ipAddress sd = []"
    by blast
  with False show ?thesis
    by (simp add: createSession_def hashRefreshToken_def schemaAccepts_def Let_def)
qed

lemma createSession_Inr:
  assumes "createSession pf now store uid refreshToken sd = (Inr u, store')"
  shows "uid \<noteq> [] \<and> refreshToken \<noteq> [] \<and> isObjectId pf uid \<and>
         sha256_hex pf refreshToken \<noteq> [] \<and> sd_ipAddress sd \<noteq> []"
proof (rule ccontr)
  assume "\<not> (uid \<noteq> [] \<and> refreshToken \<noteq> [] \<and> isObjectId pf uid \<and>
         sha256_hex pf refreshToken \<noteq> [] \<and> sd_ipAddress sd \<noteq> [])"
  then have "uid = [] \<or> refreshToken = [] \<or> \<not> isObjectId pf uid \<or>
           sha256_hex pf refreshToken = [] \<or> sd_ipAddress sd = []" by blast
  from createSession_Inl[OF this] assms show False by simp
qed

text \<open>
  Claim C9. Every call of \<^verbatim>\<open>createSession\<close> that persists a session appends exactly one
  document; its \<^verbatim>\<open>refreshTokenHash\<close> is the SHA-256 hex digest of the raw refresh
  token; every other field is the \<^verbatim>\<open>userId\<close> argument, a field of the session data
  passed in, a date computed from the clock, or a constant; and the document holds nothing
  else of the token: another token with the same digest would have stored the same
  document.
\<close>
theorem createSession_stores_digest:
  assumes "createSession pf now store uid refreshToken sd = (Inr (), store')"
  shows "\<exists>r. store' = store @ [r] \<and>
             refreshTokenHash r = sha256_hex pf refreshToken \<and>
             s_userId r = uid \<and> deviceInfo r = sd_deviceInfo sd \<and>
             ipAddress r = sd_ipAddress sd \<and> userAgent r = sd_userAgent sd \<and>
             expiresAt r = now + 604800000 \<and> isActive r \<and> createdAt r = now \<and>
             lastUsed r = now \<and> updatedAt r = now \<and> revokedAt r = None \<and>
             (\<forall>other. other \<noteq> [] \<and> sha256_hex pf other = sha256_hex pf refreshToken
                \<longrightarrow> createSession pf now store uid other sd = (Inr (), store')) \<and>
             (refreshToken \<notin> set ([uid, sd_deviceInfo sd, sd_ipAddress sd]
                                   @ (case sd_userAgent sd of None \<Rightarrow> [] | Some a \<Rightarrow> [a])) \<and>
              sha256_hex pf refreshToken \<noteq> refreshToken
                \<longrightarrow> refreshToken \<notin> set (sessionStrings r))"
proof -
  from createSession_Inr[OF assms] have ne: "uid \<noteq> []" "refreshToken \<noteq> []"
    and ok: "isObjectId pf uid" "sha256_hex pf refreshToken \<noteq> []" "sd_ipAddress sd \<noteq> []"
    by blast+
  let ?r = "\<lparr>s_userId = uid, refreshTokenHash = sha256_hex pf refreshToken,
             deviceInfo = sd_deviceInfo sd, ipAddress = sd_ipAddress sd,
             userAgent = sd_userAgent sd,
             expiresAt = now + 604800000, isActive = True,
             createdAt = now, lastUsed = now, updatedAt = now, revokedAt = None\<rparr>"
  from createSession_ok[OF ne ok, of now store] assms
  have s: "store' = store @ [?r]" by simp
  have o: "createSession pf now store uid other sd = (Inr (), store')"
    if "other \<noteq> [] \<and> sha256_hex pf other = sha256_hex pf refreshToken" for other
  proof -
    from that have 1: "other \<noteq> []" and 2: "sha256_hex pf other = sha256_hex pf refreshToken"
      by blast+
    from ok(2) 2 have 3: "sha256_hex pf other \<noteq> []" by simp
    from createSession_ok[OF ne(1) 1 ok(1) 3 ok(3), of now store] 2 s show ?thesis by simp
  qed
  have n: "refreshToken \<notin> set (sessionStrings ?r)"
    if "refreshToken \<notin> set ([uid, sd_deviceInfo sd, sd_ipAddress sd]
                                   @ (case sd_userAgent sd of None \<Rightarrow> [] | Some a \<Rightarrow> [a])) \<and>
        sha256_hex pf refreshToken \<noteq> refreshToken"
    using that by (cases "sd_userAgent sd") (auto simp: sessionStrings_def)
  show ?thesis
    by (rule exI[of _ ?r]) (use s o n in simp)
qed

text \<open>
  C9 on the demo platform, whose digest drops the dots of its input: two different tokens
  with one digest store the same document.
\<close>
theorem createSession_stores_digest_witness:
  "createSession demo 0 [] ''64b7f0c2a1d3e4f5a6b7c8d9'' ''refresh.64b7f0c2a1d3e4f5a6b7c8d9.k1'' device1 = (Inr (), [session1 0 device1]) \<and>
   refreshTokenHash (session1 0 device1) = sha256_hex demo ''refresh.64b7f0c2a1d3e4f5a6b7c8d9.k1'' \<and>
   ''refresh.64b7f0c2a1d3e4f5a6b7c8d9k1'' \<noteq> [] \<and>
   sha256_hex demo ''refresh.64b7f0c2a1d3e4f5a6b7c8d9k1'' = sha256_hex demo ''refresh.64b7f0c2a1d3e4f5a6b7c8d9.k1'' \<and>
   createSession demo 0 [] ''64b7f0c2a1d3e4f5a6b7c8d9'' ''refresh.64b7f0c2a1d3e4f5a6b7c8d9k1'' device1 = (Inr (), [session1 0 device1]) \<and>
   ''refresh.64b7f0c2a1d3e4f5a6b7c8d9.k1'' \<notin> set ([''64b7f0c2a1d3e4f5a6b7c8d9'', sd_deviceInfo device1, sd_ipAddress device1]
                               @ (case sd_userAgent device1 of None \<Rightarrow> [] | Some a \<Rightarrow> [a])) \<and>
   sha256_hex demo ''refresh.64b7f0c2a1d3e4f5a6b7c8d9.k1'' \<noteq> ''refresh.64b7f0c2a1d3e4f5a6b7c8d9.k1'' \<and>
   ''refresh.64b7f0c2a1d3e4f5a6b7c8d9.k1'' \<notin> set (sessionStrings (session1 0 device1))"
proof -
  have c: "createSession demo 0 [] ''64b7f0c2a1d3e4f5a6b7c8d9'' ''refresh.64b7f0c2a1d3e4f5a6b7c8d9.k1'' device1 = (Inr (), [session1 0 device1])"
    by (simp add: demo_createSession_u1[OF device_ipAddress(1)])
  have h: "sha256_hex demo ''refresh.64b7f0c2a1d3e4f5a6b7c8d9k1'' = sha256_hex demo ''refresh.64b7f0c2a1d3e4f5a6b7c8d9.k1''"
    by (simp add: demo_fields demo_digest_def)
  have a: "''refresh.64b7f0c2a1d3e4f5a6b7c8d9.k1'' \<notin> set ([''64b7f0c2a1d3e4f5a6b7c8d9'', sd_deviceInfo device1, sd_ipAddress device1]
                               @ (case sd_userAgent device1 of None \<Rightarrow> [] | Some a \<Rightarrow> [a]))"
    by (simp add: device1_def)
  have d: "sha256_hex demo ''refresh.64b7f0c2a1d3e4f5a6b7c8d9.k1'' \<noteq> ''refresh.64b7f0c2a1d3e4f5a6b7c8d9.k1''"
    by (simp add: demo_digest_refresh_u1)
  from createSession_stores_digest[OF c] obtain r where r: "[session1 0 device1] = [] @ [r]"
    and rh: "refreshTokenHash r = sha256_hex demo ''refresh.64b7f0c2a1d3e4f5a6b7c8d9.k1''"
    and o: "\<forall>other. other \<noteq> [] \<and> sha256_hex demo other = sha256_hex demo ''refresh.64b7f0c2a1d3e4f5a6b7c8d9.k1''
              \<longrightarrow> createSession demo 0 [] ''64b7f0c2a1d3e4f5a6b7c8d9'' other device1 = (Inr (), [session1 0 device1])"
    and n: "''refresh.64b7f0c2a1d3e4f5a6b7c8d9.k1'' \<notin> set ([''64b7f0c2a1d3e4f5a6b7c8d9'', sd_deviceInfo device1, sd_ipAddress device1]
                                   @ (case sd_userAgent device1 of None \<Rightarrow> [] | Some a \<Rightarrow> [a])) \<and>
            sha256_hex demo ''refresh.64b7f0c2a1d3e4f5a6b7c8d9.k1'' \<noteq> ''refresh.64b7f0c2a1d3e4f5a6b7c8d9.k1''
              \<longrightarrow> ''refresh.64b7f0c2a1d3e4f5a6b7c8d9.k1'' \<notin> set (sessionStrings r)"
    by blast
  from r have e: "r = session1 0 device1" by simp
  with rh have 1: "refreshTokenHash (session1 0 device1) = sha256_hex demo ''refresh.64b7f0c2a1d3e4f5a6b7c8d9.k1''" by simp
  from o h have 2: "createSession demo 0 [] ''64b7f0c2a1d3e4f5a6b7c8d9'' ''refresh.64b7f0c2a1d3e4f5a6b7c8d9k1'' device1 = (Inr (), [session1 0 device1])"
    by simp
  from n a d e have 3: "''refresh.64b7f0c2a1d3e4f5a6b7c8d9.k1'' \<notin> set (sessionStrings (session1 0 device1))" by blast
  from c 1 h 2 a d 3 show ?thesis by blast
qed

subsection \<open>Validation and revocation\<close>

lemma verifyRefreshToken_empty: "verifyRefreshToken pf now [] = None"
  by (simp add: verifyRefreshToken_def)

lemma accepted_nonempty: "accepted (verifyRefreshToken pf now R) \<Longrightarrow> R \<noteq> []"
  by (auto simp: verifyRefreshToken_empty accepted_def)

lemma validateSession_rejected:
  assumes "\<not> accepted (verifyRefreshToken pf now R)"
  shows "validateSession pf now store R = (None, store)"
proof (cases "R = []")
  case True
  then show ?thesis by (simp add: validateSession_def)
next
  case False
  show ?thesis
  proof (cases "verifyRefreshToken pf now R")
    case None
    with False show ?thesis by (simp add: validateSession_def)
  next
    case (Some v)
    with assms have "\<not> isValid v" by (simp add: accepted_def)
    with False Some show ?thesis by (simp add: validateSession_def)
  qed
qed

lemma validateSession_accepted:
  assumes "accepted (verifyRefreshToken pf now R)"
  shows "validateSession pf now store R =
           (case find (liveSession (sha256_hex pf R) now) store of
              None \<Rightarrow> (None, store)
            | Some session \<Rightarrow>
                (Some (s_userId session),
                 updateFirst (liveSession (sha256_hex pf R) now)
                   (\<lambda>s. s\<lparr>lastUsed := now, updatedAt := now\<rparr>) store))"
proof -
  from accepted_nonempty[OF assms] have ne: "R \<noteq> []" .
  from assms obtain v where v: "verifyRefreshToken pf now R = Some v" "isValid v"
    by (cases "verifyRefreshToken pf now R") (simp_all add: accepted_def)
  from ne v show ?thesis by (simp add: validateSession_def hashRefreshToken_def)
qed

lemma validateSession_no_live:
  assumes "find (liveSession (sha256_hex pf R) now) store = None"
  shows "validateSession pf now store R = (None, store)"
proof (cases "accepted (verifyRefreshToken pf now R)")
  case True
  from validateSession_accepted[OF True] assms show ?thesis by simp
next
  case False
  then show ?thesis by (rule validateSession_rejected)
qed

lemma validateSession_fst:
  "fst (validateSession pf now store R) =
     (if accepted (verifyRefreshToken pf now R)
      then map_option s_userId (find (liveSession (sha256_hex pf R) now) store)
      else None)"
proof (cases "accepted (verifyRefreshToken pf now R)")
  case True
  from validateSession_accepted[OF True] True show ?thesis
    by (cases "find (liveSession (sha256_hex pf R) now) store") simp_all
next
  case False
  from validateSession_rejected[OF False] False show ?thesis by simp
qed

lemma find_live_iff:
  "(find (liveSession h now) store \<noteq> None) =
     (\<exists>s \<in> set store. refreshTokenHash s = h \<and> isActive s \<and> now < expiresAt s)"
  by (auto simp: find_None_iff liveSession_def)

lemma validateSession_Some_iff:
  "(fst (validateSession pf now store R) \<noteq> None) =
      (accepted (verifyRefreshToken pf now R) \<and>
       (\<exists>s \<in> set store. refreshTokenHash s = sha256_hex pf R \<and> isActive s \<and> now < expiresAt s))"
  using find_live_iff[of "sha256_hex pf R" now store]
  by (simp add: validateSession_fst)

lemma applyUpdate_revoking:
  "applyUpdate now (revokingUpdate now) s = s\<lparr>isActive := False, updatedAt := now\<rparr>"
  by (simp add: applyUpdate_def revokingUpdate_def castUpdate_def schemaPaths_def)

lemma applyUpdate_revoking_fun:
  "applyUpdate now (revokingUpdate now) = (\<lambda>s. s\<lparr>isActive := False, updatedAt := now\<rparr>)"
  by (rule ext) (rule applyUpdate_revoking)

lemma revokeSession_ok:
  assumes "R \<noteq> []"
  shows "revokeSession pf now store R =
           (Inr (),
            updateFirst (\<lambda>s. refreshTokenHash s = sha256_hex pf R)
              (\<lambda>s. s\<lparr>isActive := False, updatedAt := now\<rparr>) store)"
  using assms by (simp add: revokeSession_def hashRefreshToken_def applyUpdate_revoking_fun)

lemma updateFirst_single:
  assumes "length (filter q xs) \<le> 1" and "\<And>x. q x \<Longrightarrow> \<not> p (f x)"
  shows "\<forall>y \<in> set (updateFirst q f xs). q y \<longrightarrow> \<not> p y"
  using assms(1)
proof (induction xs)
  case Nil
  then show ?case by simp
next
  case (Cons x xs)
  show ?case
  proof (cases "q x")
    case True
    with Cons.prems have "filter q xs = []" by simp
    then have "\<forall>y \<in> set xs. \<not> q y" by (simp add: filter_empty_conv)
    with True assms(2) show ?thesis by auto
  next
    case False
    with Cons.prems have "length (filter q xs) \<le> 1" by simp
    from Cons.IH[OF this] False show ?thesis by auto
  qed
qed

lemma revoked_never_validates:
  assumes ne: "R \<noteq> []"
    and one: "length (filter (\<lambda>s. refreshTokenHash s = sha256_hex pf R) store) \<le> 1"
  shows "validateSession pf t2 (snd (revokeSession pf t1 store R)) R =
           (None, snd (revokeSession pf t1 store R))"
proof -
  let ?q = "\<lambda>s. refreshTokenHash s = sha256_hex pf R"
  let ?f = "\<lambda>s. s\<lparr>isActive := False, updatedAt := t1\<rparr>"
  let ?store' = "updateFirst ?q ?f store"
  have "\<forall>y \<in> set ?store'. ?q y \<longrightarrow> \<not> isActive y"
    by (rule updateFirst_single[OF one]) simp
  then have "\<not> (\<exists>s \<in> set ?store'. refreshTokenHash s = sha256_hex pf R \<and> isActive s \<and> t2 < expiresAt s)"
    by blast
  then have "find (liveSession (sha256_hex pf R) t2) ?store' = None"
    using find_live_iff[of "sha256_hex pf R" t2 ?store'] by blast
  from validateSession_no_live[OF this] revokeSession_ok[OF ne, of pf t1 store]
  show ?thesis by simp
qed

lemma session1_fields:
  "refreshTokenHash (session1 now sd) = ''refresh64b7f0c2a1d3e4f5a6b7c8d9k1''" "isActive (session1 now sd)"
  "expiresAt (session1 now sd) = now + 604800000" "s_userId (session1 now sd) = ''64b7f0c2a1d3e4f5a6b7c8d9''"
  "updatedAt (session1 now sd) = now" "revokedAt (session1 now sd) = None"
  by (simp_all add: session1_def)

lemma demo_accepted_refresh_u1: "accepted (verifyRefreshToken demo now ''refresh.64b7f0c2a1d3e4f5a6b7c8d9.k1'')"
  by (simp add: demo_verifyRefreshToken_u1 accepted_def)

text \<open>
  Claim C1 fails when two documents share a hash. Two logins of one principal at the same
  clock reading get the same refresh token, and \<^verbatim>\<open>createSession\<close> stores a document for
  each, with one hash. \<^verbatim>\<open>revokeSession\<close> uses \<^verbatim>\<open>updateOne\<close> and deactivates the first
  document only; the \<^verbatim>\<open>validateSession\<close> that follows finds the second and returns the
  user id, where the claim has \<^verbatim>\<open>null\<close>.
\<close>
theorem revokeSession_misses_duplicate_hash:
  "generateTokenPair demo 0 [] ''64b7f0c2a1d3e4f5a6b7c8d9'' device1 =
     (Inr (''access.64b7f0c2a1d3e4f5a6b7c8d9.k1'', ''refresh.64b7f0c2a1d3e4f5a6b7c8d9.k1''), [session1 0 device1]) \<and>
   generateTokenPair demo 0 [session1 0 device1] ''64b7f0c2a1d3e4f5a6b7c8d9'' device2 =
     (Inr (''access.64b7f0c2a1d3e4f5a6b7c8d9.k1'', ''refresh.64b7f0c2a1d3e4f5a6b7c8d9.k1''), [session1 0 device1, session1 0 device2]) \<and>
   revokeSession demo 1000 [session1 0 device1, session1 0 device2] ''refresh.64b7f0c2a1d3e4f5a6b7c8d9.k1'' =
     (Inr (), [(session1 0 device1)\<lparr>isActive := False, updatedAt := 1000\<rparr>, session1 0 device2]) \<and>
   validateSession demo 2000
       [(session1 0 device1)\<lparr>isActive := False, updatedAt := 1000\<rparr>, session1 0 device2]
       ''refresh.64b7f0c2a1d3e4f5a6b7c8d9.k1'' =
     (Some ''64b7f0c2a1d3e4f5a6b7c8d9'',
      [(session1 0 device1)\<lparr>isActive := False, updatedAt := 1000\<rparr>,
       (session1 0 device2)\<lparr>lastUsed := 2000, updatedAt := 2000\<rparr>])"
proof -
  have 1: "generateTokenPair demo 0 [] ''64b7f0c2a1d3e4f5a6b7c8d9'' device1 =
     (Inr (''access.64b7f0c2a1d3e4f5a6b7c8d9.k1'', ''refresh.64b7f0c2a1d3e4f5a6b7c8d9.k1''), [session1 0 device1])"
    by (simp add: demo_generateTokenPair_u1[OF device_ipAddress(1)])
  have 2: "generateTokenPair demo 0 [session1 0 device1] ''64b7f0c2a1d3e4f5a6b7c8d9'' device2 =
     (Inr (''access.64b7f0c2a1d3e4f5a6b7c8d9.k1'', ''refresh.64b7f0c2a1d3e4f5a6b7c8d9.k1''), [session1 0 device1, session1 0 device2])"
    by (simp add: demo_generateTokenPair_u1[OF device_ipAddress(2)])
  have 3: "revokeSession demo 1000 [session1 0 device1, session1 0 device2] ''refresh.64b7f0c2a1d3e4f5a6b7c8d9.k1'' =
     (Inr (), [(session1 0 device1)\<lparr>isActive := False, updatedAt := 1000\<rparr>, session1 0 device2])"
    by (simp add: revokeSession_ok demo_digest_refresh_u1 session1_fields)
  have 4: "validateSession demo 2000
       [(session1 0 device1)\<lparr>isActive := False, updatedAt := 1000\<rparr>, session1 0 device2]
       ''refresh.64b7f0c2a1d3e4f5a6b7c8d9.k1'' =
     (Some ''64b7f0c2a1d3e4f5a6b7c8d9'',
      [(session1 0 device1)\<lparr>isActive := False, updatedAt := 1000\<rparr>,
       (session1 0 device2)\<lparr>lastUsed := 2000, updatedAt := 2000\<rparr>])"
    by (simp add: validateSession_accepted[OF demo_accepted_refresh_u1] liveSession_def
        demo_digest_refresh_u1 session1_fields)
  from 1 2 3 4 show ?thesis by simp
qed

subsection \<open>Revoking all sessions of a principal\<close>

lemma modifiedCount_all:
  assumes "\<And>x. q x \<Longrightarrow> f x \<noteq> x"
  shows "modifiedCount q f xs = length (filter q xs)"
proof -
  have "(\<lambda>x. q x \<and> f x \<noteq> x) = q" using assms by auto
  then show ?thesis by (simp add: modifiedCount_def)
qed

lemma deactivate_changes: "isActive s \<Longrightarrow> s\<lparr>isActive := False, updatedAt := t\<rparr> \<noteq> s"
proof
  assume a: "isActive s" and e: "s\<lparr>isActive := False, updatedAt := t\<rparr> = s"
  from e have "isActive (s\<lparr>isActive := False, updatedAt := t\<rparr>) = isActive s" by simp
  with a show False by simp
qed

lemma revokeAllUserSessions_ok:
  assumes "P \<noteq> []" "isObjectId pf P"
  shows "revokeAllUserSessions pf t0 store P =
           (Inr (length (filter (\<lambda>s. s_userId s = P \<and> isActive s) store)),
            map (\<lambda>s. if s_userId s = P \<and> isActive s
                     then s\<lparr>isActive := False, updatedAt := t0\<rparr> else s) store)"
proof -
  have "modifiedCount (\<lambda>s. s_userId s = P \<and> isActive s)
          (\<lambda>s. s\<lparr>isActive := False, updatedAt := t0\<rparr>) store =
        length (filter (\<lambda>s. s_userId s = P \<and> isActive s) store)"
    by (rule modifiedCount_all) (simp add: deactivate_changes)
  with assms show ?thesis
    by (simp add: revokeAllUserSessions_def updateMany_def applyUpdate_revoking_fun)
qed

lemma revokeAllUserSessions_cast_fails:
  assumes "\<not> isObjectId pf P"
  shows "revokeAllUserSessions pf t0 store P =
           (Inl (TokenError ''Failed to revoke user sessions'' ''BULK_REVOCATION_FAILED''), store)"
  using assms by (simp add: revokeAllUserSessions_def)

lemma revokeAllUserSessions_revokedAt:
  "map revokedAt (snd (revokeAllUserSessions pf t0 store P)) = map revokedAt store"
proof (cases "P \<noteq> [] \<and> isObjectId pf P")
  case True
  then have "P \<noteq> []" "isObjectId pf P" by blast+
  from revokeAllUserSessions_ok[OF this, of t0 store] show ?thesis by (simp add: comp_def)
next
  case False
  then show ?thesis by (auto simp: revokeAllUserSessions_def)
qed

text \<open>
  Claim C3 fails on \<^verbatim>\<open>revokedAt\<close>. The store holds an active session of the principal
  \<^verbatim>\<open>64b7f0c2a1d3e4f5a6b7c8d9\<close>, a session of \<^verbatim>\<open>64b7f0c2a1d3e4f5a6b7c8d9\<close> deactivated earlier, and an
  active session of \<^verbatim>\<open>64b7f0c2a1d3e4f5a6b7c8da\<close>. \<^verbatim>\<open>revokeAllUserSessions\<close> for \<^verbatim>\<open>64b7f0c2a1d3e4f5a6b7c8d9\<close> deactivates
  the first document, leaves the other two as they are and returns 1, as the claim says; but the
  document it deactivates has no \<^verbatim>\<open>revokedAt\<close> afterwards. The update names
  \<^verbatim>\<open>revokedAt: new Date()\<close>, the schema of \<^verbatim>\<open>models/Session.ts\<close> does not declare that
  path, and so the update that reaches the store sets \<^verbatim>\<open>isActive\<close> and \<^verbatim>\<open>updatedAt\<close> only.
\<close>
theorem revokeAllUserSessions_never_stores_revokedAt:
  "revokeAllUserSessions demo 1000
       [session1 0 device1,
        (session1 100 device2)\<lparr>isActive := False, updatedAt := 500\<rparr>,
        (session1 0 device1)\<lparr>s_userId := ''64b7f0c2a1d3e4f5a6b7c8da'', refreshTokenHash := ''refresh64b7f0c2a1d3e4f5a6b7c8dak1''\<rparr>]
       ''64b7f0c2a1d3e4f5a6b7c8d9'' =
     (Inr 1,
      [(session1 0 device1)\<lparr>isActive := False, updatedAt := 1000\<rparr>,
       (session1 100 device2)\<lparr>isActive := False, updatedAt := 500\<rparr>,
       (session1 0 device1)\<lparr>s_userId := ''64b7f0c2a1d3e4f5a6b7c8da'', refreshTokenHash := ''refresh64b7f0c2a1d3e4f5a6b7c8dak1''\<rparr>]) \<and>
   castUpdate (revokingUpdate 1000) = [(''isActive'', BoolValue False)] \<and>
   map revokedAt
     (snd (revokeAllUserSessions demo 1000
             [session1 0 device1,
              (session1 100 device2)\<lparr>isActive := False, updatedAt := 500\<rparr>,
              (session1 0 device1)\<lparr>s_userId := ''64b7f0c2a1d3e4f5a6b7c8da'', refreshTokenHash := ''refresh64b7f0c2a1d3e4f5a6b7c8dak1''\<rparr>]
             ''64b7f0c2a1d3e4f5a6b7c8d9'')) =
     [None, None, None]"
proof -
  have 1: "revokeAllUserSessions demo 1000
       [session1 0 device1,
        (session1 100 device2)\<lparr>isActive := False, updatedAt := 500\<rparr>,
        (session1 0 device1)\<lparr>s_userId := ''64b7f0c2a1d3e4f5a6b7c8da'', refreshTokenHash := ''refresh64b7f0c2a1d3e4f5a6b7c8dak1''\<rparr>]
       ''64b7f0c2a1d3e4f5a6b7c8d9'' =
     (Inr 1,
      [(session1 0 device1)\<lparr>isActive := False, updatedAt := 1000\<rparr>,
       (session1 100 device2)\<lparr>isActive := False, updatedAt := 500\<rparr>,
       (session1 0 device1)\<lparr>s_userId := ''64b7f0c2a1d3e4f5a6b7c8da'', refreshTokenHash := ''refresh64b7f0c2a1d3e4f5a6b7c8dak1''\<rparr>])"
    by (simp add: revokeAllUserSessions_ok[OF _ demo_isObjectId_u1] session1_fields)
  have 2: "castUpdate (revokingUpdate 1000) = [(''isActive'', BoolValue False)]"
    by (simp add: castUpdate_def revokingUpdate_def schemaPaths_def)
  from 1 2 show ?thesis by (simp add: session1_fields)
qed

subsection \<open>Revoking twice\<close>

lemma updateFirst_unmatched: "\<forall>x \<in> set xs. \<not> q x \<Longrightarrow> updateFirst q f xs = xs"
  by (induction xs) auto

lemma revokeSession_unmatched:
  assumes "R \<noteq> []" and "\<forall>s \<in> set store. refreshTokenHash s \<noteq> sha256_hex pf R"
  shows "revokeSession pf now store R = (Inr (), store)"
  using assms by (simp add: revokeSession_ok updateFirst_unmatched)

lemma revoked_differs:
  "(session1 0 device1)\<lparr>isActive := False, updatedAt := 5000\<rparr> \<noteq>
   (session1 0 device1)\<lparr>isActive := False, updatedAt := 1000\<rparr>"
proof
  assume "(session1 0 device1)\<lparr>isActive := False, updatedAt := 5000\<rparr> =
          (session1 0 device1)\<lparr>isActive := False, updatedAt := 1000\<rparr>"
  then have "updatedAt ((session1 0 device1)\<lparr>isActive := False, updatedAt := 5000\<rparr>) =
             updatedAt ((session1 0 device1)\<lparr>isActive := False, updatedAt := 1000\<rparr>)"
    by (rule arg_cong)
  then show False by simp
qed

text \<open>
  Claim C4 fails at a session that is already revoked. The first \<^verbatim>\<open>revokeSession\<close> of the
  refresh token, at 1000, deactivates its document. The second, at 5000, does not raise, but
  it is not a no-op: the filter of its \<^verbatim>\<open>updateOne\<close> is the hash alone, so it matches the
  revoked document and writes it again, and \<^verbatim>\<open>updatedAt\<close> goes from 1000 to 5000. The
  document has no \<^verbatim>\<open>revokedAt\<close> before or after: the schema does not declare the path, and
  neither call stores it. \<^verbatim>\<open>revokeAllUserSessions\<close>, whose filter has \<^verbatim>\<open>isActive: true\<close>,
  leaves the same document as it is and returns 0.
\<close>
theorem revokeSession_rewrites_revoked_record:
  "revokeSession demo 1000 [session1 0 device1] ''refresh.64b7f0c2a1d3e4f5a6b7c8d9.k1'' =
     (Inr (), [(session1 0 device1)\<lparr>isActive := False, updatedAt := 1000\<rparr>]) \<and>
   revokeSession demo 5000 [(session1 0 device1)\<lparr>isActive := False, updatedAt := 1000\<rparr>]
       ''refresh.64b7f0c2a1d3e4f5a6b7c8d9.k1'' =
     (Inr (), [(session1 0 device1)\<lparr>isActive := False, updatedAt := 5000\<rparr>]) \<and>
   (session1 0 device1)\<lparr>isActive := False, updatedAt := 5000\<rparr> \<noteq>
     (session1 0 device1)\<lparr>isActive := False, updatedAt := 1000\<rparr> \<and>
   updatedAt ((session1 0 device1)\<lparr>isActive := False, updatedAt := 1000\<rparr>) = 1000 \<and>
   updatedAt ((session1 0 device1)\<lparr>isActive := False, updatedAt := 5000\<rparr>) = 5000 \<and>
   revokedAt ((session1 0 device1)\<lparr>isActive := False, updatedAt := 1000\<rparr>) = None \<and>
   revokedAt ((session1 0 device1)\<lparr>isActive := False, updatedAt := 5000\<rparr>) = None \<and>
   revokeAllUserSessions demo 5000 [(session1 0 device1)\<lparr>isActive := False, updatedAt := 1000\<rparr>]
       ''64b7f0c2a1d3e4f5a6b7c8d9'' =
     (Inr 0, [(session1 0 device1)\<lparr>isActive := False, updatedAt := 1000\<rparr>])"
proof -
  have 1: "revokeSession demo 1000 [session1 0 device1] ''refresh.64b7f0c2a1d3e4f5a6b7c8d9.k1'' =
     (Inr (), [(session1 0 device1)\<lparr>isActive := False, updatedAt := 1000\<rparr>])"
    by (simp add: revokeSession_ok demo_digest_refresh_u1 session1_fields)
  have 2: "revokeSession demo 5000 [(session1 0 device1)\<lparr>isActive := False, updatedAt := 1000\<rparr>]
       ''refresh.64b7f0c2a1d3e4f5a6b7c8d9.k1'' =
     (Inr (), [(session1 0 device1)\<lparr>isActive := False, updatedAt := 5000\<rparr>])"
    by (simp add: revokeSession_ok demo_digest_refresh_u1 session1_fields)
  have 3: "revokedAt ((session1 0 device1)\<lparr>isActive := False, updatedAt := 1000\<rparr>) = None"
    "revokedAt ((session1 0 device1)\<lparr>isActive := False, updatedAt := 5000\<rparr>) = None"
    by (simp_all add: session1_fields)
  have 4: "revokeAllUserSessions demo 5000 [(session1 0 device1)\<lparr>isActive := False, updatedAt := 1000\<rparr>]
       ''64b7f0c2a1d3e4f5a6b7c8d9'' =
     (Inr 0, [(session1 0 device1)\<lparr>isActive := False, updatedAt := 1000\<rparr>])"
    by (simp add: revokeAllUserSessions_ok[OF _ demo_isObjectId_u1])
  from 1 2 revoked_differs 3 4 show ?thesis by simp
qed

subsection \<open>The controller and its cache\<close>

lemma constructed_fields:
  assumes "new_HybridAuthController (cache this) = Returned this"
  shows "CACHE_KEY_PREFIX this = ''user_session:''" "CACHE_TTL_SECONDS this = 1800"
    "REFRESH_BEFORE_EXPIRY_SECONDS this = 300"
proof -
  from assms have "this = \<lparr>cache = cache this, CACHE_KEY_PREFIX = ''user_session:'',
      CACHE_TTL_SECONDS = 1800, REFRESH_BEFORE_EXPIRY_SECONDS = 300\<rparr>"
    by (simp add: new_HybridAuthController_def)
  then have "CACHE_KEY_PREFIX this = CACHE_KEY_PREFIX \<lparr>cache = cache this, CACHE_KEY_PREFIX = ''user_session:'',
      CACHE_TTL_SECONDS = 1800, REFRESH_BEFORE_EXPIRY_SECONDS = 300\<rparr>"
    and "CACHE_TTL_SECONDS this = CACHE_TTL_SECONDS \<lparr>cache = cache this, CACHE_KEY_PREFIX = ''user_session:'',
      CACHE_TTL_SECONDS = 1800, REFRESH_BEFORE_EXPIRY_SECONDS = 300\<rparr>"
    and "REFRESH_BEFORE_EXPIRY_SECONDS this = REFRESH_BEFORE_EXPIRY_SECONDS \<lparr>cache = cache this, CACHE_KEY_PREFIX = ''user_session:'',
      CACHE_TTL_SECONDS = 1800, REFRESH_BEFORE_EXPIRY_SECONDS = 300\<rparr>"
    by simp_all
  then show "CACHE_KEY_PREFIX this = ''user_session:''" "CACHE_TTL_SECONDS this = 1800"
    "REFRESH_BEFORE_EXPIRY_SECONDS this = 300"
    by simp_all
qed

lemma buildSessionData_Some:
  assumes "buildSessionData this now db uid = Some snapshot"
  shows "tokenExpiresAt (sessionMetadata snapshot) = now + 86400000 \<and>
         refreshAt (sessionMetadata snapshot) =
           now + 86400000 - REFRESH_BEFORE_EXPIRY_SECONDS this * 1000 \<and>
         cacheExpiresAt (sessionMetadata snapshot) = now + CACHE_TTL_SECONDS this * 1000"
proof (cases "findById db uid")
  case None
  with assms show ?thesis by (simp add: buildSessionData_def)
next
  case (Some u)
  show ?thesis
  proof (cases "user_isActive u")
    case False
    with assms Some show ?thesis by (simp add: buildSessionData_def)
  next
    case True
    with assms Some show ?thesis by (auto simp: buildSessionData_def Let_def)
  qed
qed

lemma buildSessionData_cache: "buildSessionData (this\<lparr>cache := c\<rparr>) now db uid = buildSessionData this now db uid"
  by (cases "findById db uid") (simp_all add: buildSessionData_def Let_def)

lemma buildSessionData_None_iff:
  "(buildSessionData this now db uid = None) = (\<not> (\<exists>u. findById db uid = Some u \<and> user_isActive u))"
proof (cases "findById db uid")
  case None
  then show ?thesis by (simp add: buildSessionData_def)
next
  case (Some u)
  then show ?thesis by (cases "user_isActive u") (simp_all add: buildSessionData_def Let_def)
qed

text \<open>What a read does once the token has verified, by the state of the cache entry.\<close>

lemma getSessionData_rebuild:
  assumes tok: "verifyToken pf now token = Some uid"
    and miss: "case cache this (CACHE_KEY_PREFIX this @ js_template uid) of
                 None \<Rightarrow> True
               | Some entry \<Rightarrow> isExpired now entry \<or> shouldRefreshCache now (data entry)"
  shows "getSessionData pf this now db token =
           (let key = CACHE_KEY_PREFIX this @ js_template uid;
                this1 = this\<lparr>cache := snd (cache_get now (cache this) key)\<rparr>
            in case buildSessionData this now db uid of
                 None \<Rightarrow> (Unauthenticated ''User not found'', this1, 1)
               | Some sessionData \<Rightarrow>
                   (Authenticated sessionData,
                    this1\<lparr>cache := (cache this1)(key \<mapsto>
                       \<lparr>data = sessionData, entryExpiresAt = now + CACHE_TTL_SECONDS this * 1000\<rparr>)\<rparr>,
                    1))"
proof (cases "cache this (CACHE_KEY_PREFIX this @ js_template uid)")
  case None
  then show ?thesis
    using tok
    by (cases "buildSessionData this now db uid")
       (simp_all add: getSessionData_def getCachedSession_def cache_get_def cacheSession_def
          cache_setex_def buildSessionData_cache Let_def)
next
  case (Some entry)
  show ?thesis
  proof (cases "isExpired now entry")
    case True
    with Some show ?thesis
      using tok
      by (cases "buildSessionData this now db uid")
         (simp_all add: getSessionData_def getCachedSession_def cache_get_def cacheSession_def
            cache_setex_def buildSessionData_cache Let_def)
  next
    case False
    with miss Some have "shouldRefreshCache now (data entry)" by simp
    with False Some show ?thesis
      using tok
      by (cases "buildSessionData this now db uid")
         (simp_all add: getSessionData_def getCachedSession_def cache_get_def cacheSession_def
            cache_setex_def buildSessionData_cache Let_def)
  qed
qed

lemma getSessionData_hit:
  assumes tok: "verifyToken pf now token = Some uid"
    and entry: "cache this (CACHE_KEY_PREFIX this @ js_template uid) = Some entry"
    and fresh: "\<not> isExpired now entry" "\<not> shouldRefreshCache now (data entry)"
  shows "getSessionData pf this now db token = (Authenticated (data entry), this, 0)"
  using assms
  by (simp add: getSessionData_def getCachedSession_def cache_get_def Let_def)

lemma getSessionData_invalid:
  assumes "verifyToken pf now token = None"
  shows "getSessionData pf this now db token = (Unauthenticated ''Invalid token'', this, 0)"
  using assms by (simp add: getSessionData_def)

text \<open>
  Claim C8, as amended. The constructor takes a cache instance and no configuration: for
  every cache instance it returns a controller holding that instance, with the time to live
  fixed at 1800 seconds and the refresh lead fixed at 300 seconds, the lead below the time
  to live.
\<close>
theorem constructor_fixed_settings:
  "\<exists>this. new_HybridAuthController cacheInstance = Returned this \<and>
          cache this = cacheInstance \<and> CACHE_KEY_PREFIX this = ''user_session:'' \<and>
          CACHE_TTL_SECONDS this = 1800 \<and> REFRESH_BEFORE_EXPIRY_SECONDS this = 300 \<and>
          REFRESH_BEFORE_EXPIRY_SECONDS this < CACHE_TTL_SECONDS this"
  by (simp add: new_HybridAuthController_def)

text \<open>
  C8 as stated asks for constructions that are rejected. There is none: the constructor
  checks nothing, so no call of it throws; on the empty cache it returns the controller
  with the two fixed settings.
\<close>
theorem constructor_never_rejects:
  "new_HybridAuthController Map.empty = Returned controller0 \<and>
   \<not> (\<exists>cacheInstance msg. new_HybridAuthController cacheInstance = Threw msg)"
  by (simp add: new_HybridAuthController_def controller0_def)

lemma getSessionData_rebuilt:
  assumes r: "getSessionData pf this now db token = (result, this', Suc 0)"
  shows "\<exists>uid. verifyToken pf now token = Some uid \<and>
           (case cache this (CACHE_KEY_PREFIX this @ js_template uid) of
              None \<Rightarrow> True
            | Some entry \<Rightarrow> isExpired now entry \<or> shouldRefreshCache now (data entry))"
proof (cases "verifyToken pf now token")
  case None
  from getSessionData_invalid[OF None, of this db] r show ?thesis by simp
next
  case (Some uid)
  show ?thesis
  proof (cases "cache this (CACHE_KEY_PREFIX this @ js_template uid)")
    case None
    with Some show ?thesis by simp
  next
    case (Some entry)
    note e = this
    show ?thesis
    proof (cases "isExpired now entry \<or> shouldRefreshCache now (data entry)")
      case True
      with \<open>verifyToken pf now token = Some uid\<close> e show ?thesis by simp
    next
      case False
      then have "\<not> isExpired now entry" "\<not> shouldRefreshCache now (data entry)" by blast+
      from getSessionData_hit[OF \<open>verifyToken pf now token = Some uid\<close> e this, of db] r
      show ?thesis by simp
    qed
  qed
qed

text \<open>
  Claim C5, as amended. Whenever a session read of a constructed controller rebuilds the
  snapshot and returns it, the cache holds an entry with that snapshot whose hard expiry
  is now + 1800 s, equal to the snapshot's \<^verbatim>\<open>cacheExpiresAt\<close>; the snapshot's
  \<^verbatim>\<open>tokenExpiresAt\<close> is now + 24 h and its \<^verbatim>\<open>refreshAt\<close> is \<^verbatim>\<open>tokenExpiresAt\<close> - 300 s. So
  \<^verbatim>\<open>refreshAt\<close> is before \<^verbatim>\<open>tokenExpiresAt\<close>, and after the hard expiry of the cache entry.
\<close>
theorem snapshot_expiry_times:
  assumes ctl: "new_HybridAuthController (cache this) = Returned this"
    and r: "getSessionData pf this now db token = (Authenticated snapshot, this', Suc 0)"
  shows "(\<exists>key. cache this' key = Some \<lparr>data = snapshot, entryExpiresAt = now + 1800000\<rparr>) \<and>
         cacheExpiresAt (sessionMetadata snapshot) = now + 1800000 \<and>
         tokenExpiresAt (sessionMetadata snapshot) = now + 86400000 \<and>
         refreshAt (sessionMetadata snapshot) = tokenExpiresAt (sessionMetadata snapshot) - 300000 \<and>
         refreshAt (sessionMetadata snapshot) < tokenExpiresAt (sessionMetadata snapshot) \<and>
         cacheExpiresAt (sessionMetadata snapshot) < refreshAt (sessionMetadata snapshot)"
proof -
  from getSessionData_rebuilt[OF r] obtain uid where tok: "verifyToken pf now token = Some uid"
    and miss: "case cache this (CACHE_KEY_PREFIX this @ js_template uid) of
                 None \<Rightarrow> True
               | Some entry \<Rightarrow> isExpired now entry \<or> shouldRefreshCache now (data entry)"
    by blast
  note g = getSessionData_rebuild[OF tok miss, of db]
  note f = constructed_fields[OF ctl]
  show ?thesis
  proof (cases "buildSessionData this now db uid")
    case None
    with g r show ?thesis by (simp add: Let_def)
  next
    case (Some sessionData)
    with g r have s: "sessionData = snapshot"
      and c: "this' = this\<lparr>cache := (snd (cache_get now (cache this) (CACHE_KEY_PREFIX this @ js_template uid)))
                 (CACHE_KEY_PREFIX this @ js_template uid \<mapsto>
                    \<lparr>data = sessionData, entryExpiresAt = now + CACHE_TTL_SECONDS this * 1000\<rparr>)\<rparr>"
      by (simp_all add: Let_def)
    from c s f have k: "cache this' (CACHE_KEY_PREFIX this @ js_template uid) =
        Some \<lparr>data = snapshot, entryExpiresAt = now + 1800000\<rparr>"
      by simp
    from buildSessionData_Some[OF Some] s f
    have m: "tokenExpiresAt (sessionMetadata snapshot) = now + 86400000"
      "refreshAt (sessionMetadata snapshot) = now + 86400000 - 300000"
      "cacheExpiresAt (sessionMetadata snapshot) = now + 1800000"
      by simp_all
    from k m show ?thesis by auto
  qed
qed

lemma demo_env_secret: "env demo ''JWT_SECRET'' = Some ''k1''"
  by (simp add: demo_def)

lemma demo_verifyToken_u1: "verifyToken demo now ''access.64b7f0c2a1d3e4f5a6b7c8d9.k1'' = Some (Some ''64b7f0c2a1d3e4f5a6b7c8d9'')"
  by (simp add: verifyToken_def demo_env_secret demo_verify_access_u1)

lemma controller0_constructed: "new_HybridAuthController (cache controller0) = Returned controller0"
  by (simp add: new_HybridAuthController_def controller0_def)

lemma controller0_fields:
  "cache controller0 = Map.empty" "CACHE_KEY_PREFIX controller0 = ''user_session:''"
  "CACHE_TTL_SECONDS controller0 = 1800" "REFRESH_BEFORE_EXPIRY_SECONDS controller0 = 300"
  by (simp_all add: controller0_def)

lemma demo_build_u1: "buildSessionData controller0 now demo_users (Some ''64b7f0c2a1d3e4f5a6b7c8d9'') = Some (snapshot1 now)"
  by (simp add: buildSessionData_def findById_def demo_users_def user1_def snapshot1_def
      controller0_fields Let_def)

lemma demo_first_read:
  "getSessionData demo controller0 now demo_users ''access.64b7f0c2a1d3e4f5a6b7c8d9.k1'' =
     (Authenticated (snapshot1 now),
      controller0\<lparr>cache := [''user_session:64b7f0c2a1d3e4f5a6b7c8d9'' \<mapsto>
                      \<lparr>data = snapshot1 now, entryExpiresAt = now + 1800000\<rparr>]\<rparr>,
      Suc 0)"
proof -
  have miss: "case cache controller0 (CACHE_KEY_PREFIX controller0 @ js_template (Some ''64b7f0c2a1d3e4f5a6b7c8d9'')) of
                 None \<Rightarrow> True
               | Some entry \<Rightarrow> isExpired now entry \<or> shouldRefreshCache now (data entry)"
    by (simp add: controller0_fields)
  from getSessionData_rebuild[OF demo_verifyToken_u1 miss, of demo_users]
  show ?thesis
    by (simp add: demo_build_u1 controller0_fields js_template_def cache_get_def Let_def)
qed

text \<open>C5 on the demo platform: the first session read of \<^verbatim>\<open>64b7f0c2a1d3e4f5a6b7c8d9\<close>, at instant 0.\<close>
theorem snapshot_expiry_times_witness:
  "new_HybridAuthController (cache controller0) = Returned controller0 \<and>
   getSessionData demo controller0 0 demo_users ''access.64b7f0c2a1d3e4f5a6b7c8d9.k1'' =
     (Authenticated (snapshot1 0),
      controller0\<lparr>cache := [''user_session:64b7f0c2a1d3e4f5a6b7c8d9'' \<mapsto>
                      \<lparr>data = snapshot1 0, entryExpiresAt = 1800000\<rparr>]\<rparr>,
      Suc 0) \<and>
   cacheExpiresAt (sessionMetadata (snapshot1 0)) = 1800000 \<and>
   tokenExpiresAt (sessionMetadata (snapshot1 0)) = 86400000 \<and>
   refreshAt (sessionMetadata (snapshot1 0)) = 86100000"
proof -
  have g: "getSessionData demo controller0 0 demo_users ''access.64b7f0c2a1d3e4f5a6b7c8d9.k1'' =
     (Authenticated (snapshot1 0),
      controller0\<lparr>cache := [''user_session:64b7f0c2a1d3e4f5a6b7c8d9'' \<mapsto>
                      \<lparr>data = snapshot1 0, entryExpiresAt = 1800000\<rparr>]\<rparr>,
      Suc 0)"
    using demo_first_read[of 0] by simp
  from snapshot_expiry_times[OF controller0_constructed g]
  have "cacheExpiresAt (sessionMetadata (snapshot1 0)) = 1800000"
    "tokenExpiresAt (sessionMetadata (snapshot1 0)) = 86400000"
    "refreshAt (sessionMetadata (snapshot1 0)) = 86100000"
    by simp_all
  with controller0_constructed g show ?thesis by simp
qed

text \<open>
  C5 as stated fails at the first snapshot built: built and cached at instant 0, its entry
  expires at 1 800 000 ms, and its \<^verbatim>\<open>refreshAt\<close> is 86 100 000 ms, which is neither before
  the entry's expiry nor that expiry less the refresh lead.
\<close>
theorem snapshot_refreshAt_after_cache_expiry:
  "new_HybridAuthController Map.empty = Returned controller0 \<and>
   getSessionData demo controller0 0 demo_users ''access.64b7f0c2a1d3e4f5a6b7c8d9.k1'' =
     (Authenticated (snapshot1 0),
      controller0\<lparr>cache := [''user_session:64b7f0c2a1d3e4f5a6b7c8d9'' \<mapsto>
                      \<lparr>data = snapshot1 0, entryExpiresAt = 1800000\<rparr>]\<rparr>,
      Suc 0) \<and>
   refreshAt (sessionMetadata (snapshot1 0)) = 86100000 \<and>
   \<not> refreshAt (sessionMetadata (snapshot1 0)) < 1800000 \<and>
   refreshAt (sessionMetadata (snapshot1 0)) \<noteq> 1800000 - 300 * 1000"
proof -
  have g: "getSessionData demo controller0 0 demo_users ''access.64b7f0c2a1d3e4f5a6b7c8d9.k1'' =
     (Authenticated (snapshot1 0),
      controller0\<lparr>cache := [''user_session:64b7f0c2a1d3e4f5a6b7c8d9'' \<mapsto>
                      \<lparr>data = snapshot1 0, entryExpiresAt = 1800000\<rparr>]\<rparr>,
      Suc 0)"
    using demo_first_read[of 0] by simp
  have c: "new_HybridAuthController Map.empty = Returned controller0"
    by (simp add: new_HybridAuthController_def controller0_def)
  from c g show ?thesis by (simp add: snapshot1_def)
qed

lemma stale_entry_read:
  assumes ctl: "new_HybridAuthController (cache this) = Returned this"
    and tok: "verifyToken pf now token = Some uid"
    and entry: "cache this (''user_session:'' @ js_template uid) = Some old"
    and stale: "refreshAt (sessionMetadata (data old)) \<le> now"
    and served: "now < entryExpiresAt old"
  shows "(buildSessionData this now db uid = None) =
           (\<not> (\<exists>u. findById db uid = Some u \<and> user_isActive u)) \<and>
         (case buildSessionData this now db uid of
            None \<Rightarrow>
              getSessionData pf this now db token = (Unauthenticated ''User not found'', this, Suc 0)
          | Some snapshot \<Rightarrow>
              getSessionData pf this now db token =
                (Authenticated snapshot,
                 this\<lparr>cache := (cache this)(''user_session:'' @ js_template uid \<mapsto>
                    \<lparr>data = snapshot, entryExpiresAt = now + 1800000\<rparr>)\<rparr>,
                 Suc 0) \<and>
              cacheExpiresAt (sessionMetadata snapshot) = now + 1800000 \<and>
              (entryExpiresAt old < now + 1800000 \<longrightarrow>
                 entryExpiresAt old < cacheExpiresAt (sessionMetadata snapshot)))"
proof -
  note f = constructed_fields[OF ctl]
  from entry f have e: "cache this (CACHE_KEY_PREFIX this @ js_template uid) = Some old" by simp
  from stale have sr: "shouldRefreshCache now (data old)" by (simp add: shouldRefreshCache_def)
  from served have ne: "\<not> isExpired now old" by (simp add: isExpired_def)
  from e sr have miss: "case cache this (CACHE_KEY_PREFIX this @ js_template uid) of
                 None \<Rightarrow> True
               | Some entry \<Rightarrow> isExpired now entry \<or> shouldRefreshCache now (data entry)"
    by simp
  from e ne have same: "snd (cache_get now (cache this) (CACHE_KEY_PREFIX this @ js_template uid)) = cache this"
    by (simp add: cache_get_def)
  note g = getSessionData_rebuild[OF tok miss, of db]
  have 2: "case buildSessionData this now db uid of
            None \<Rightarrow>
              getSessionData pf this now db token = (Unauthenticated ''User not found'', this, Suc 0)
          | Some snapshot \<Rightarrow>
              getSessionData pf this now db token =
                (Authenticated snapshot,
                 this\<lparr>cache := (cache this)(''user_session:'' @ js_template uid \<mapsto>
                    \<lparr>data = snapshot, entryExpiresAt = now + 1800000\<rparr>)\<rparr>,
                 Suc 0) \<and>
              cacheExpiresAt (sessionMetadata snapshot) = now + 1800000 \<and>
              (entryExpiresAt old < now + 1800000 \<longrightarrow>
                 entryExpiresAt old < cacheExpiresAt (sessionMetadata snapshot))"
  proof (cases "buildSessionData this now db uid")
    case None
    with g same show ?thesis by (simp add: Let_def)
  next
    case (Some snapshot)
    from buildSessionData_Some[OF Some] f
    have c: "cacheExpiresAt (sessionMetadata snapshot) = now + 1800000" by simp
    from g same Some f have "getSessionData pf this now db token =
                (Authenticated snapshot,
                 this\<lparr>cache := (cache this)(''user_session:'' @ js_template uid \<mapsto>
                    \<lparr>data = snapshot, entryExpiresAt = now + 1800000\<rparr>)\<rparr>,
                 Suc 0)"
      by (simp add: Let_def)
    with c Some show ?thesis by simp
  qed
  from buildSessionData_None_iff[of this now db uid] 2 show ?thesis by blast
qed

lemma fresh_entry_read:
  assumes ctl: "new_HybridAuthController (cache this) = Returned this"
    and tok: "verifyToken pf now token = Some uid"
    and entry: "cache this (''user_session:'' @ js_template uid) = Some old"
    and fresh: "now < refreshAt (sessionMetadata (data old))"
    and served: "now \<le> entryExpiresAt old"
  shows "getSessionData pf this now db token = (Authenticated (data old), this, 0)"
proof -
  from entry constructed_fields[OF ctl]
  have e: "cache this (CACHE_KEY_PREFIX this @ js_template uid) = Some old" by simp
  from fresh have 1: "\<not> shouldRefreshCache now (data old)" by (simp add: shouldRefreshCache_def)
  from served have 2: "\<not> isExpired now old" by (simp add: isExpired_def)
  show ?thesis by (rule getSessionData_hit[OF tok e 2 1])
qed

text \<open>
  Claim C6, as amended. Take a constructed controller, a token that verifies, and a cache
  entry for its principal. If the entry's \<^verbatim>\<open>refreshAt\<close> has elapsed and its hard expiry has
  not, the read calls \<^verbatim>\<open>buildSessionData\<close> exactly once before it responds. When the
  principal's user document exists and is active, the rebuilt snapshot replaces the entry
  and is returned, with expiry now + 1800 s, which is later than the previous entry's
  expiry whenever that was less than 1800 s away. Otherwise the read returns
  \<^verbatim>\<open>{authenticated: false, error: "User not found"}\<close> and the entry stays as it is. If the
  entry's \<^verbatim>\<open>refreshAt\<close> has not elapsed and the cache still serves the entry, the read
  returns the cached snapshot without any rebuild and leaves the cache as it is; by C5 that
  is the case of every entry the read path has stored itself, for as long as the cache
  serves it.
\<close>
theorem stale_entry_rebuilt_once:
  assumes ctl: "new_HybridAuthController (cache this) = Returned this"
    and tok: "verifyToken pf now token = Some uid"
    and entry: "cache this (''user_session:'' @ js_template uid) = Some old"
  shows "(refreshAt (sessionMetadata (data old)) \<le> now \<and> now < entryExpiresAt old \<longrightarrow>
           (buildSessionData this now db uid = None) =
             (\<not> (\<exists>u. findById db uid = Some u \<and> user_isActive u)) \<and>
           (case buildSessionData this now db uid of
              None \<Rightarrow>
                getSessionData pf this now db token =
                  (Unauthenticated ''User not found'', this, Suc 0)
            | Some snapshot \<Rightarrow>
                getSessionData pf this now db token =
                  (Authenticated snapshot,
                   this\<lparr>cache := (cache this)(''user_session:'' @ js_template uid \<mapsto>
                      \<lparr>data = snapshot, entryExpiresAt = now + 1800000\<rparr>)\<rparr>,
                   Suc 0) \<and>
                cacheExpiresAt (sessionMetadata snapshot) = now + 1800000 \<and>
                (entryExpiresAt old < now + 1800000 \<longrightarrow>
                   entryExpiresAt old < cacheExpiresAt (sessionMetadata snapshot)))) \<and>
         (now < refreshAt (sessionMetadata (data old)) \<and> now \<le> entryExpiresAt old \<longrightarrow>
            getSessionData pf this now db token = (Authenticated (data old), this, 0))"
proof (intro conjI impI)
  assume h: "refreshAt (sessionMetadata (data old)) \<le> now \<and> now < entryExpiresAt old"
  then have s: "refreshAt (sessionMetadata (data old)) \<le> now" and v: "now < entryExpiresAt old"
    by blast+
  note r = stale_entry_read[OF ctl tok entry s v, of db]
  from r show "(buildSessionData this now db uid = None) =
             (\<not> (\<exists>u. findById db uid = Some u \<and> user_isActive u))" by blast
  from r show "case buildSessionData this now db uid of
              None \<Rightarrow>
                getSessionData pf this now db token =
                  (Unauthenticated ''User not found'', this, Suc 0)
            | Some snapshot \<Rightarrow>
                getSessionData pf this now db token =
                  (Authenticated snapshot,
                   this\<lparr>cache := (cache this)(''user_session:'' @ js_template uid \<mapsto>
                      \<lparr>data = snapshot, entryExpiresAt = now + 1800000\<rparr>)\<rparr>,
                   Suc 0) \<and>
                cacheExpiresAt (sessionMetadata snapshot) = now + 1800000 \<and>
                (entryExpiresAt old < now + 1800000 \<longrightarrow>
                   entryExpiresAt old < cacheExpiresAt (sessionMetadata snapshot))" by blast
next
  assume "now < refreshAt (sessionMetadata (data old)) \<and> now \<le> entryExpiresAt old"
  then have f: "now < refreshAt (sessionMetadata (data old))" and v: "now \<le> entryExpiresAt old"
    by blast+
  show "getSessionData pf this now db token = (Authenticated (data old), this, 0)"
    by (rule fresh_entry_read[OF ctl tok entry f v])
qed

lemma staleController_constructed:
  "new_HybridAuthController (cache staleController) = Returned staleController"
  by (simp add: new_HybridAuthController_def staleController_def controller0_def)

lemma staleController_entry:
  "cache staleController (''user_session:'' @ js_template (Some ''64b7f0c2a1d3e4f5a6b7c8d9'')) = Some staleEntry"
  by (simp add: staleController_def js_template_def)

lemma staleEntry_fields:
  "refreshAt (sessionMetadata (data staleEntry)) = 1500000" "entryExpiresAt staleEntry = 1800000"
  "cacheExpiresAt (sessionMetadata (data staleEntry)) = 1800000"
  by (simp_all add: staleEntry_def)

lemma staleController_build:
  "buildSessionData staleController now db uid = buildSessionData controller0 now db uid"
  by (simp add: staleController_def buildSessionData_cache)

lemma cachedController_constructed:
  "new_HybridAuthController (cache cachedController) = Returned cachedController"
  by (simp add: new_HybridAuthController_def cachedController_def controller0_def)

lemma cachedController_entry:
  "cache cachedController (''user_session:'' @ js_template (Some ''64b7f0c2a1d3e4f5a6b7c8d9'')) =
     Some \<lparr>data = snapshot1 0, entryExpiresAt = 1800000\<rparr>"
  by (simp add: cachedController_def js_template_def)

lemma snapshot1_metadata:
  "refreshAt (sessionMetadata (snapshot1 now)) = now + 86100000"
  "cacheExpiresAt (sessionMetadata (snapshot1 now)) = now + 1800000"
  "tokenExpiresAt (sessionMetadata (snapshot1 now)) = now + 86400000"
  by (simp_all add: snapshot1_def)

text \<open>
  C6 on the demo platform, at instant 1 600 000: an entry whose \<^verbatim>\<open>refreshAt\<close> is 1 500 000
  is rebuilt once and replaced; the entry that the read at instant 0 stored, whose
  \<^verbatim>\<open>refreshAt\<close> is 86 100 000, is served as it is.
\<close>
theorem stale_entry_rebuilt_once_witness:
  "new_HybridAuthController (cache staleController) = Returned staleController \<and>
   verifyToken demo 1600000 ''access.64b7f0c2a1d3e4f5a6b7c8d9.k1'' = Some (Some ''64b7f0c2a1d3e4f5a6b7c8d9'') \<and>
   cache staleController (''user_session:'' @ js_template (Some ''64b7f0c2a1d3e4f5a6b7c8d9'')) = Some staleEntry \<and>
   refreshAt (sessionMetadata (data staleEntry)) \<le> 1600000 \<and>
   1600000 < entryExpiresAt staleEntry \<and>
   findById demo_users (Some ''64b7f0c2a1d3e4f5a6b7c8d9'') = Some user1 \<and> user_isActive user1 \<and>
   getSessionData demo staleController 1600000 demo_users ''access.64b7f0c2a1d3e4f5a6b7c8d9.k1'' =
     (Authenticated (snapshot1 1600000),
      staleController\<lparr>cache := (cache staleController)(''user_session:'' @ js_template (Some ''64b7f0c2a1d3e4f5a6b7c8d9'') \<mapsto>
         \<lparr>data = snapshot1 1600000, entryExpiresAt = 3400000\<rparr>)\<rparr>,
      Suc 0) \<and>
   entryExpiresAt staleEntry < 1600000 + 1800000 \<and>
   entryExpiresAt staleEntry < cacheExpiresAt (sessionMetadata (snapshot1 1600000)) \<and>
   new_HybridAuthController (cache cachedController) = Returned cachedController \<and>
   cache cachedController (''user_session:'' @ js_template (Some ''64b7f0c2a1d3e4f5a6b7c8d9'')) =
     Some \<lparr>data = snapshot1 0, entryExpiresAt = 1800000\<rparr> \<and>
   1600000 < refreshAt (sessionMetadata (snapshot1 0)) \<and> (1600000 :: int) \<le> 1800000 \<and>
   getSessionData demo cachedController 1600000 demo_users ''access.64b7f0c2a1d3e4f5a6b7c8d9.k1'' =
     (Authenticated (snapshot1 0), cachedController, 0)"
proof -
  have s: "refreshAt (sessionMetadata (data staleEntry)) \<le> 1600000"
    and v: "1600000 < entryExpiresAt staleEntry"
    and l: "entryExpiresAt staleEntry < 1600000 + 1800000"
    by (simp_all add: staleEntry_fields)
  have u: "findById demo_users (Some ''64b7f0c2a1d3e4f5a6b7c8d9'') = Some user1" "user_isActive user1"
    by (simp_all add: findById_def demo_users_def user1_def)
  have b: "buildSessionData staleController 1600000 demo_users (Some ''64b7f0c2a1d3e4f5a6b7c8d9'') = Some (snapshot1 1600000)"
    by (simp add: staleController_build demo_build_u1)
  from stale_entry_rebuilt_once[OF staleController_constructed demo_verifyToken_u1 staleController_entry, of 1600000 demo_users]
    s v b l
  have g: "getSessionData demo staleController 1600000 demo_users ''access.64b7f0c2a1d3e4f5a6b7c8d9.k1'' =
     (Authenticated (snapshot1 1600000),
      staleController\<lparr>cache := (cache staleController)(''user_session:'' @ js_template (Some ''64b7f0c2a1d3e4f5a6b7c8d9'') \<mapsto>
         \<lparr>data = snapshot1 1600000, entryExpiresAt = 3400000\<rparr>)\<rparr>,
      Suc 0)"
    and x: "entryExpiresAt staleEntry < cacheExpiresAt (sessionMetadata (snapshot1 1600000))"
    by simp_all
  have f: "1600000 < refreshAt (sessionMetadata (snapshot1 0))" "(1600000 :: int) \<le> 1800000"
    by (simp_all add: snapshot1_metadata)
  from stale_entry_rebuilt_once[OF cachedController_constructed demo_verifyToken_u1 cachedController_entry, of 1600000 demo_users] f
  have h: "getSessionData demo cachedController 1600000 demo_users ''access.64b7f0c2a1d3e4f5a6b7c8d9.k1'' =
     (Authenticated (snapshot1 0), cachedController, 0)"
    by simp
  from staleController_constructed demo_verifyToken_u1 staleController_entry s v u g l x
    cachedController_constructed cachedController_entry f h
  show ?thesis by blast
qed

text \<open>
  C6 as stated fails in two ways at instant 1 600 000, which is within the last 300 s
  before a hard expiry at 1 800 000. The entry that the read at instant 0 stored is
  returned with no rebuild, because its stored \<^verbatim>\<open>refreshAt\<close> is 86 100 000. And an entry
  whose stored \<^verbatim>\<open>refreshAt\<close> is its expiry less 300 s, for a principal whose user document
  has been deactivated, is not replaced: the one rebuild finds no active user, the read
  returns \<^verbatim>\<open>User not found\<close>, and the cache keeps the entry.
\<close>
theorem refresh_window_not_as_claimed:
  "getSessionData demo controller0 0 demo_users ''access.64b7f0c2a1d3e4f5a6b7c8d9.k1'' =
     (Authenticated (snapshot1 0), cachedController, Suc 0) \<and>
   (1800000 :: int) - 300 * 1000 \<le> 1600000 \<and> (1600000 :: int) < 1800000 \<and>
   getSessionData demo cachedController 1600000 demo_users ''access.64b7f0c2a1d3e4f5a6b7c8d9.k1'' =
     (Authenticated (snapshot1 0), cachedController, 0) \<and>
   cache staleController ''user_session:64b7f0c2a1d3e4f5a6b7c8d9'' = Some staleEntry \<and>
   refreshAt (sessionMetadata (data staleEntry)) = entryExpiresAt staleEntry - 300 * 1000 \<and>
   refreshAt (sessionMetadata (data staleEntry)) \<le> 1600000 \<and>
   1600000 < entryExpiresAt staleEntry \<and>
   getSessionData demo staleController 1600000 [''64b7f0c2a1d3e4f5a6b7c8d9'' \<mapsto> user1\<lparr>user_isActive := False\<rparr>]
       ''access.64b7f0c2a1d3e4f5a6b7c8d9.k1'' =
     (Unauthenticated ''User not found'', staleController, Suc 0)"
proof -
  have 1: "getSessionData demo controller0 0 demo_users ''access.64b7f0c2a1d3e4f5a6b7c8d9.k1'' =
     (Authenticated (snapshot1 0), cachedController, Suc 0)"
    using demo_first_read[of 0] by (simp add: cachedController_def)
  have f: "1600000 < refreshAt (sessionMetadata (data \<lparr>data = snapshot1 0, entryExpiresAt = 1800000\<rparr>))"
    "1600000 \<le> entryExpiresAt \<lparr>data = snapshot1 0, entryExpiresAt = 1800000\<rparr>"
    by (simp_all add: snapshot1_metadata)
  from fresh_entry_read[OF cachedController_constructed demo_verifyToken_u1 cachedController_entry f,
      of demo_users]
  have 2: "getSessionData demo cachedController 1600000 demo_users ''access.64b7f0c2a1d3e4f5a6b7c8d9.k1'' =
     (Authenticated (snapshot1 0), cachedController, 0)"
    by simp
  have e: "cache staleController ''user_session:64b7f0c2a1d3e4f5a6b7c8d9'' = Some staleEntry"
    by (simp add: staleController_def)
  have m: "case cache staleController (CACHE_KEY_PREFIX staleController @ js_template (Some ''64b7f0c2a1d3e4f5a6b7c8d9'')) of
                 None \<Rightarrow> True
               | Some entry \<Rightarrow> isExpired 1600000 entry \<or> shouldRefreshCache 1600000 (data entry)"
    by (simp add: staleController_def controller0_def js_template_def shouldRefreshCache_def
        staleEntry_fields)
  have b: "buildSessionData staleController 1600000 [''64b7f0c2a1d3e4f5a6b7c8d9'' \<mapsto> user1\<lparr>user_isActive := False\<rparr>]
             (Some ''64b7f0c2a1d3e4f5a6b7c8d9'') = None"
    by (simp add: buildSessionData_def findById_def)
  have c: "snd (cache_get 1600000 (cache staleController)
                 (CACHE_KEY_PREFIX staleController @ js_template (Some ''64b7f0c2a1d3e4f5a6b7c8d9''))) = cache staleController"
    by (simp add: staleController_def controller0_def js_template_def cache_get_def isExpired_def
        staleEntry_fields)
  from getSessionData_rebuild[OF demo_verifyToken_u1 m, of "[''64b7f0c2a1d3e4f5a6b7c8d9'' \<mapsto> user1\<lparr>user_isActive := False\<rparr>]"]
  have 3: "getSessionData demo staleController 1600000 [''64b7f0c2a1d3e4f5a6b7c8d9'' \<mapsto> user1\<lparr>user_isActive := False\<rparr>]
       ''access.64b7f0c2a1d3e4f5a6b7c8d9.k1'' =
     (Unauthenticated ''User not found'', staleController, Suc 0)"
    by (simp add: b c Let_def)
  from 1 2 e 3 show ?thesis by (simp add: staleEntry_fields)
qed

end
